theory Spec2Isabelle
  imports Main "HOL-Library.Sublist"
begin

section \<open>Bitbucket Server scaffolder actions\<close>

text \<open>
  A shallow embedding of the Bitbucket Server actions of the scaffolder backend:
  the repository lookup (\<open>getRepoInfo\<close>, \<open>getRepositoryRemoteUrl\<close>), the repository
  creation with its conflict fallback (\<open>createRepository\<close>, \<open>performEnableLFS\<close>), the
  reviewer merge (\<open>getReviewers\<close>), the pull request creation (\<open>createPullRequest\<close>)
  and the five action handlers.

  Every asynchronous function of the source is a function from the trace of effects so
  far to a result and the extended trace. A result is \<open>Inl\<close> of the thrown error or
  \<open>Inr\<close> of the returned value. The collaborators that the source imports from other
  packages (the URL parser, the integration registry, the HTTP transport, the git
  helpers, the configuration reader) are fields of an environment record.
\<close>

subsection \<open>JavaScript values\<close>

text \<open>
  The values that \<open>response.json()\<close> yields, together with \<open>undefined\<close>. \<open>JNum i\<close> is
  the Number that the integer literal \<open>i\<close> denotes; Numbers with a fractional part are
  not modelled. A string is a list of 8-bit characters. An object is the list of its
  own properties.
\<close>

datatype jsval =
    JUndefined
  | JNull
  | JBool bool
  | JNum int
  | JStr string
  | JArr "jsval list"
  | JObj "(string \<times> jsval) list"

text \<open>
  What a failed property read or a failed iteration was applied to; and the failure to
  convert an object to a primitive value.
\<close>

datatype type_error =
    CannotReadProperty jsval string
  | NotIterable jsval
  | CannotConvertToPrimitive

datatype error =
    InputError string
  | Error string
  | TypeError type_error
  | Thrown string string

text \<open>
  \<open>Thrown name message\<close> is an exception raised by a collaborator (a rejected fetch, a
  body that is not JSON, a failing git operation).
\<close>

subsection \<open>Numbers and strings\<close>

function decimal :: "nat \<Rightarrow> string" where
  "decimal n =
     (if n < 10 then [''0123456789'' ! n]
      else decimal (n div 10) @ [''0123456789'' ! (n mod 10)])"
  by pat_completeness auto
termination
  by (relation "measure id") auto

declare decimal.simps [simp del]

text \<open>
  The Number nearest to the positive ratio \<open>n / d\<close>, halves rounded to the even
  mantissa: a mantissa \<open>q\<close> below \<open>2 ^ 53\<close> (or \<open>2 ^ 53\<close> itself after rounding up) and
  an exponent \<open>b\<close>, not less than \<open>- 1074\<close>, for the value \<open>q * 2 ^ b\<close>.
\<close>

function bitlen :: "nat \<Rightarrow> nat" where
  "bitlen n = (if n = 0 then 0 else Suc (bitlen (n div 2)))"
  by pat_completeness auto
termination
  by (relation "measure id") auto

declare bitlen.simps [simp del]

definition scale2 :: "nat \<Rightarrow> nat \<Rightarrow> int \<Rightarrow> nat \<times> nat" where
  "scale2 n d b = (if 0 \<le> b then (n, d * 2 ^ nat b) else (n * 2 ^ nat (- b), d))"

definition nearest_double :: "nat \<Rightarrow> nat \<Rightarrow> nat \<times> int" where
  "nearest_double n d =
     (let g = int (bitlen n) - int (bitlen d);
          fl = (case scale2 n d g of (ng, dg) \<Rightarrow> if dg \<le> ng then g else g - 1);
          b = max (fl - 52) (- 1074)
      in case scale2 n d b of (nb, db) \<Rightarrow>
           (let q = nb div db; r = nb mod db
            in (if db < 2 * r \<or> (2 * r = db \<and> odd q) then q + 1 else q, b)))"

definition round_double :: "nat \<Rightarrow> nat" where
  "round_double n =
     (if n = 0 then 0
      else case nearest_double n 1 of (q, b) \<Rightarrow>
        if 0 \<le> b then q * 2 ^ nat b else q div 2 ^ nat (- b))"

text \<open>
  \<open>Number.prototype.toString\<close> for a Number whose value is an integer. The digits are
  those of the decimal number with the fewest significant digits that still denotes
  the Number \<open>x\<close> (of the two multiples of \<open>p\<close> next to \<open>x\<close> the nearer one, the one with
  the even digit when they are equally near); below \<open>2 ^ 53\<close> that is \<open>x\<close> itself. Up to
  21 digits are printed as they are, more in exponent form. An integer literal that is
  not the value of a Number denotes the nearest Number (literals beyond the largest
  Number, which denote \<open>Infinity\<close>, are not modelled).
\<close>

definition shortest_candidate :: "nat \<Rightarrow> nat \<Rightarrow> nat option" where
  "shortest_candidate x p =
     (let lo = (x div p) * p; hi = lo + p;
          ok_lo = (0 < lo \<and> round_double lo = x);
          ok_hi = (round_double hi = x)
      in if ok_lo \<and> ok_hi
         then (if x - lo < hi - x \<or> (x - lo = hi - x \<and> even (x div p)) then Some lo else Some hi)
         else if ok_lo then Some lo
         else if ok_hi then Some hi
         else None)"

definition shortest_decimal :: "nat \<Rightarrow> nat" where
  "shortest_decimal x =
     (let n = length (decimal x)
      in case List.map_filter (\<lambda>k. shortest_candidate x (10 ^ (n - k))) [1 ..< n] of
           [] \<Rightarrow> x
         | c # _ \<Rightarrow> c)"

definition strip_zeros :: "string \<Rightarrow> string" where
  "strip_zeros s = rev (dropWhile (\<lambda>c. c = CHR ''0'') (rev s))"

definition natural_toString :: "nat \<Rightarrow> string" where
  "natural_toString x =
     (let ds = decimal (shortest_decimal x); n = length ds
      in if n \<le> 21 then ds
         else case strip_zeros ds of
                [] \<Rightarrow> ds
              | c # cs \<Rightarrow> c # (if cs = [] then [] else ''.'' @ cs) @ ''e+'' @ decimal (n - 1))"

definition number_toString :: "int \<Rightarrow> string" where
  "number_toString i =
     (if i < 0 then ''-'' @ natural_toString (round_double (nat (- i)))
      else natural_toString (round_double (nat i)))"

fun join :: "string \<Rightarrow> string list \<Rightarrow> string" where
  "join sep [] = []"
| "join sep [x] = x"
| "join sep (x # y # ys) = x @ sep @ join sep (y # ys)"

text \<open>
  The string that the conversion of a value gives, as in a template literal \<open>`${v}`\<close>,
  when the conversion succeeds. An array joins the conversions of its elements with
  commas, \<open>null\<close> and \<open>undefined\<close> elements giving the empty string.
\<close>

fun toString :: "jsval \<Rightarrow> string" where
  "toString JUndefined = ''undefined''"
| "toString JNull = ''null''"
| "toString (JBool b) = (if b then ''true'' else ''false'')"
| "toString (JNum i) = number_toString i"
| "toString (JStr s) = s"
| "toString (JArr xs) =
     join '','' (map (\<lambda>x. if x = JUndefined \<or> x = JNull then [] else toString x) xs)"
| "toString (JObj kvs) = ''[object Object]''"

text \<open>
  The conversion of an object calls its \<open>toString\<close> method. An object that
  \<open>response.json()\<close> yields inherits that method, unless an own property named
  \<open>toString\<close> hides it; the value of an own property is never a function, and the
  inherited \<open>valueOf\<close> returns the object itself, so the conversion of such an object
  throws a TypeError. The conversion of an array converts its elements, other than
  \<open>null\<close> and \<open>undefined\<close>.
\<close>

fun convertible :: "jsval \<Rightarrow> bool" where
  "convertible (JObj kvs) = (''toString'' \<notin> fst ` set kvs)"
| "convertible (JArr xs) = list_all convertible xs"
| "convertible v = True"

text \<open>The conversion to a string (\<open>ToString\<close> of the language definition).\<close>

definition ToString :: "jsval \<Rightarrow> error + string" where
  "ToString v =
     (if convertible v then Inr (toString v) else Inl (TypeError CannotConvertToPrimitive))"

text \<open>
  \<open>String.prototype.replace\<close> with a string pattern: the first occurrence only.
\<close>

fun replace_first :: "string \<Rightarrow> string \<Rightarrow> string \<Rightarrow> string" where
  "replace_first pat rep [] = (if pat = [] then rep else [])"
| "replace_first pat rep (c # cs) =
     (if prefix pat (c # cs) then rep @ drop (length pat) (c # cs)
      else c # replace_first pat rep cs)"

subsection \<open>Reading values\<close>

text \<open>
  \<open>v.k\<close> for a property name \<open>k\<close>: reading from \<open>undefined\<close> or \<open>null\<close> throws a
  TypeError, an object gives its own property or \<open>undefined\<close>, arrays and strings have
  \<open>length\<close>, everything else gives \<open>undefined\<close>.
\<close>

definition own_property :: "(string \<times> jsval) list \<Rightarrow> string \<Rightarrow> jsval" where
  "own_property kvs k = (case map_of kvs k of None \<Rightarrow> JUndefined | Some v \<Rightarrow> v)"

fun getProp :: "jsval \<Rightarrow> string \<Rightarrow> error + jsval" where
  "getProp JUndefined k = Inl (TypeError (CannotReadProperty JUndefined k))"
| "getProp JNull k = Inl (TypeError (CannotReadProperty JNull k))"
| "getProp (JObj kvs) k = Inr (own_property kvs k)"
| "getProp (JArr xs) k = Inr (if k = ''length'' then JNum (int (length xs)) else JUndefined)"
| "getProp (JStr s) k = Inr (if k = ''length'' then JNum (int (length s)) else JUndefined)"
| "getProp v k = Inr JUndefined"

text \<open>\<open>v[i]\<close> for a number \<open>i\<close>.\<close>

fun getIndex :: "jsval \<Rightarrow> nat \<Rightarrow> error + jsval" where
  "getIndex JUndefined i = Inl (TypeError (CannotReadProperty JUndefined (decimal i)))"
| "getIndex JNull i = Inl (TypeError (CannotReadProperty JNull (decimal i)))"
| "getIndex (JArr xs) i = Inr (if i < length xs then xs ! i else JUndefined)"
| "getIndex (JStr s) i = Inr (if i < length s then JStr [s ! i] else JUndefined)"
| "getIndex (JObj kvs) i = Inr (own_property kvs (decimal i))"
| "getIndex v i = Inr JUndefined"

text \<open>The elements that \<open>for (const x of v)\<close> visits.\<close>

fun iterate :: "jsval \<Rightarrow> error + jsval list" where
  "iterate (JArr xs) = Inr xs"
| "iterate (JStr s) = Inr (map (\<lambda>c. JStr [c]) s)"
| "iterate v = Inl (TypeError (NotIterable v))"

text \<open>
  The Number that a value converts to where the code compares it with the index
  (\<open>_index < v\<close>): \<open>Dyadic m b\<close> is the Number \<open>m * 2 ^ b\<close>.
\<close>

datatype number = NaN | PlusInfinity | MinusInfinity | Dyadic int int

text \<open>
  The conversion of a string: white space at both ends is dropped; the empty string is
  0; then come the literals with a radix prefix, without sign, and the decimal literals
  with an optional sign, \<open>Infinity\<close>, digits with an optional fraction and an optional
  exponent. Everything else is NaN. The value is rounded to the nearest Number; a
  value too large for a Number is an infinity.
\<close>

definition is_space :: "char \<Rightarrow> bool" where
  "is_space c = ((of_char c :: nat) \<in> {9, 10, 11, 12, 13, 32, 160})"

definition trim :: "string \<Rightarrow> string" where
  "trim s = rev (dropWhile is_space (rev (dropWhile is_space s)))"

definition digit_of :: "char \<Rightarrow> nat option" where
  "digit_of c =
     (let n = (of_char c :: nat)
      in if 48 \<le> n \<and> n \<le> 57 then Some (n - 48)
         else if 97 \<le> n \<and> n \<le> 102 then Some (n - 87)
         else if 65 \<le> n \<and> n \<le> 70 then Some (n - 55)
         else None)"

definition is_digit :: "nat \<Rightarrow> char \<Rightarrow> bool" where
  "is_digit radix c = (case digit_of c of None \<Rightarrow> False | Some d \<Rightarrow> d < radix)"

definition digits_value :: "nat \<Rightarrow> string \<Rightarrow> nat" where
  "digits_value radix s =
     foldl (\<lambda>acc c. radix * acc + (case digit_of c of None \<Rightarrow> 0 | Some d \<Rightarrow> d)) 0 s"

definition ratio_number :: "bool \<Rightarrow> nat \<Rightarrow> nat \<Rightarrow> number" where
  "ratio_number negative n d =
     (if n = 0 then Dyadic 0 0
      else case nearest_double n d of (q, b) \<Rightarrow>
        if 971 < b \<or> (b = 971 \<and> 2 ^ 53 \<le> q)
        then (if negative then MinusInfinity else PlusInfinity)
        else Dyadic (if negative then - int q else int q) b)"

definition exponent_part :: "string \<Rightarrow> int option" where
  "exponent_part s =
     (case s of
        [] \<Rightarrow> Some 0
      | c # cs \<Rightarrow>
          if c = CHR ''e'' \<or> c = CHR ''E''
          then (let negative = (cs \<noteq> [] \<and> hd cs = CHR ''-'');
                    ds = (if cs \<noteq> [] \<and> (hd cs = CHR ''+'' \<or> hd cs = CHR ''-'')
                          then tl cs else cs)
                in if ds \<noteq> [] \<and> list_all (is_digit 10) ds
                   then Some (if negative then - int (digits_value 10 ds)
                              else int (digits_value 10 ds))
                   else None)
          else None)"

definition decimal_literal :: "bool \<Rightarrow> string \<Rightarrow> number" where
  "decimal_literal negative s =
     (if s = ''Infinity'' then (if negative then MinusInfinity else PlusInfinity)
      else
        let ip = takeWhile (is_digit 10) s;
            r1 = dropWhile (is_digit 10) s;
            dot = (r1 \<noteq> [] \<and> hd r1 = CHR ''.'');
            fp = (if dot then takeWhile (is_digit 10) (tl r1) else []);
            r2 = (if dot then dropWhile (is_digit 10) (tl r1) else r1)
        in if ip = [] \<and> fp = [] then NaN
           else case exponent_part r2 of
                  None \<Rightarrow> NaN
                | Some ex \<Rightarrow>
                    (let m = digits_value 10 (ip @ fp); e10 = ex - int (length fp)
                     in if 0 \<le> e10 then ratio_number negative (m * 10 ^ nat e10) 1
                        else ratio_number negative m (10 ^ nat (- e10))))"

definition radix_literal :: "nat \<Rightarrow> string \<Rightarrow> number" where
  "radix_literal radix s =
     (if s \<noteq> [] \<and> list_all (is_digit radix) s
      then ratio_number False (digits_value radix s) 1
      else NaN)"

definition string_toNumber :: "string \<Rightarrow> number" where
  "string_toNumber s =
     (let t = trim s
      in if t = [] then Dyadic 0 0
         else if take 2 t = ''0x'' \<or> take 2 t = ''0X'' then radix_literal 16 (drop 2 t)
         else if take 2 t = ''0o'' \<or> take 2 t = ''0O'' then radix_literal 8 (drop 2 t)
         else if take 2 t = ''0b'' \<or> take 2 t = ''0B'' then radix_literal 2 (drop 2 t)
         else if hd t = CHR ''+'' then decimal_literal False (tl t)
         else if hd t = CHR ''-'' then decimal_literal True (tl t)
         else decimal_literal False t)"

text \<open>
  The Number that the conversion of a value gives when it succeeds. An array or an
  object converts by way of its string.
\<close>

fun toNumber :: "jsval \<Rightarrow> number" where
  "toNumber JUndefined = NaN"
| "toNumber JNull = Dyadic 0 0"
| "toNumber (JBool b) = Dyadic (if b then 1 else 0) 0"
| "toNumber (JNum i) = Dyadic i 0"
| "toNumber (JStr s) = string_toNumber s"
| "toNumber (JArr xs) = string_toNumber (toString (JArr xs))"
| "toNumber (JObj kvs) = string_toNumber (toString (JObj kvs))"

text \<open>The conversion to a Number (\<open>ToNumber\<close> of the language definition).\<close>

definition ToNumber :: "jsval \<Rightarrow> error + number" where
  "ToNumber v =
     (if convertible v then Inr (toNumber v) else Inl (TypeError CannotConvertToPrimitive))"

text \<open>
  How many of the indices 0, 1, 2, ... are smaller than a Number: none for NaN, all of
  them (\<open>None\<close>) for the positive infinity.
\<close>

definition indices_below :: "number \<Rightarrow> nat option" where
  "indices_below x =
     (case x of
        NaN \<Rightarrow> Some 0
      | MinusInfinity \<Rightarrow> Some 0
      | PlusInfinity \<Rightarrow> None
      | Dyadic m b \<Rightarrow>
          Some (if m \<le> 0 then 0
                else if 0 \<le> b then nat m * 2 ^ nat b
                else (nat m + 2 ^ nat (- b) - 1) div 2 ^ nat (- b)))"

text \<open>The number of own properties of a value, of elements of an array or a string.\<close>

fun own_size :: "jsval \<Rightarrow> nat" where
  "own_size (JObj kvs) = length kvs"
| "own_size (JArr xs) = length xs"
| "own_size (JStr s) = length s"
| "own_size v = 0"

subsection \<open>Sequencing fallible steps\<close>

definition bindE :: "error + 'a \<Rightarrow> ('a \<Rightarrow> error + 'b) \<Rightarrow> error + 'b" where
  "bindE m f = (case m of Inl e \<Rightarrow> Inl e | Inr x \<Rightarrow> f x)"

fun mapE :: "('a \<Rightarrow> error + 'b) \<Rightarrow> 'a list \<Rightarrow> error + 'b list" where
  "mapE f [] = Inr []"
| "mapE f (x # xs) = bindE (f x) (\<lambda>y. bindE (mapE f xs) (\<lambda>ys. Inr (y # ys)))"

subsection \<open>The reviewer merge\<close>

text \<open>
  An entry \<open>{ user: { name: n } }\<close> of the reviewer list. The name is whatever the
  server sent in the \<open>name\<close> field, or a requested user name.
\<close>

datatype User = User (name: jsval)

text \<open>
  The elements \<open>requiredReviewers[0]\<close>, ..., \<open>requiredReviewers[length - 1]\<close> that the
  index loop of \<open>getReviewers\<close> reads, for the \<open>length\<close> that the value reports. The
  comparison \<open>_index < length\<close> converts the length to a Number, which throws when the
  length has no primitive value. When the length is the positive infinity the loop ends
  only by throwing, at the first index without an element; a value with \<open>n\<close> own
  properties has no element at one of the indices 0, ..., \<open>n\<close>, and these are the
  indices read here. The index is a Number as well and stops growing at \<open>2 ^ 53\<close>; a
  loop over a value with fewer own properties than that throws before it gets there.
\<close>

definition indexed_elements :: "jsval \<Rightarrow> error + jsval list" where
  "indexed_elements v =
     bindE (getProp v ''length'') (\<lambda>len.
     bindE (ToNumber len) (\<lambda>x.
       case indices_below x of
         None \<Rightarrow> mapE (getIndex v) [0 ..< Suc (own_size v)]
       | Some n \<Rightarrow> mapE (getIndex v) [0 ..< n]))"

text \<open>The first loop: one step per index, reading the \<open>name\<close> of the element.\<close>

fun required_loop :: "jsval list \<Rightarrow> User list \<Rightarrow> jsval list \<Rightarrow>
    error + (jsval list \<times> User list)" where
  "required_loop [] reviewers requiredUsers = Inr (requiredUsers, reviewers)"
| "required_loop (r # rs) reviewers requiredUsers =
     bindE (getProp r ''name'') (\<lambda>n.
       required_loop rs (reviewers @ [User n]) (requiredUsers @ [n]))"

text \<open>The second loop: a requested user is skipped when \<open>requiredUsers\<close> includes it.\<close>

fun requested_loop :: "string list \<Rightarrow> jsval list \<Rightarrow> User list \<Rightarrow> User list" where
  "requested_loop [] requiredUsers reviewers = reviewers"
| "requested_loop (user # users) requiredUsers reviewers =
     (if JStr user \<in> set requiredUsers
      then requested_loop users requiredUsers reviewers
      else requested_loop users requiredUsers (reviewers @ [User (JStr user)]))"

definition getReviewers :: "string list \<Rightarrow> jsval \<Rightarrow> error + User list" where
  "getReviewers users requiredReviewers =
     bindE (indexed_elements requiredReviewers) (\<lambda>elems.
     bindE (required_loop elems [] []) (\<lambda>(requiredUsers, reviewers).
       Inr (requested_loop users requiredUsers reviewers)))"

subsection \<open>Requests, responses and the trace of effects\<close>

text \<open>
  A request as \<open>fetch\<close> receives it: the URL and the \<open>RequestInit\<close> with its method
  (\<open>httpMethod\<close>),
  its two headers and its body.
\<close>

record request =
  url :: string
  httpMethod :: string
  authorization :: string
  contentType :: "string option"
  body :: "string option"

text \<open>
  A response: \<open>status\<close>, \<open>statusText\<close>, what \<open>response.text()\<close> resolves to and what
  \<open>response.json()\<close> resolves to or rejects with.
\<close>

record response =
  status :: nat
  statusText :: string
  bodyText :: string
  json :: "error + jsval"

text \<open>The \<open>ok\<close> getter of node-fetch: a status in the range 200 to 299.\<close>

definition ok :: "response \<Rightarrow> bool" where
  "ok r = (200 \<le> status r \<and> status r < 300)"

text \<open>
  The credentials handed to git: \<open>{ token }\<close> or \<open>{ username, password }\<close>, the latter
  with the configured values, which may be missing.
\<close>

datatype auth =
    TokenAuth string
  | BasicAuth "string option" "string option"

text \<open>
  The argument of \<open>initRepoAndPush\<close>; \<open>gitAuthorInfo\<close> is the pair of \<open>name\<close> and
  \<open>email\<close>.
\<close>

record push_args =
  dir :: string
  push_remoteUrl :: jsval
  push_auth :: auth
  defaultBranch :: string
  commitMessage :: "string option"
  gitAuthorInfo :: "string option \<times> string option"

text \<open>The three calls on the object that \<open>Git.fromAuth\<close> returns.\<close>

datatype git_call =
    GitClone auth jsval string string
  | GitBranch auth string string
  | GitCheckout auth string string

text \<open>
  What an action does to the outside, in the order in which it does it.
\<close>

datatype event =
    Fetch request
  | LogInfo string
  | Output string jsval
  | InitRepoAndPush push_args
  | Git git_call

type_synonym trace = "event list"

type_synonym 'a io = "trace \<Rightarrow> (error + 'a) \<times> trace"

definition returnIO :: "'a \<Rightarrow> 'a io" where
  "returnIO x = (\<lambda>tr. (Inr x, tr))"

definition throwIO :: "error \<Rightarrow> 'a io" where
  "throwIO e = (\<lambda>tr. (Inl e, tr))"

definition liftE :: "error + 'a \<Rightarrow> 'a io" where
  "liftE m = (\<lambda>tr. (m, tr))"

definition bindIO :: "'a io \<Rightarrow> ('a \<Rightarrow> 'b io) \<Rightarrow> 'b io" where
  "bindIO m f = (\<lambda>tr. case m tr of (Inl e, tr') \<Rightarrow> (Inl e, tr') | (Inr x, tr') \<Rightarrow> f x tr')"

definition catchIO :: "'a io \<Rightarrow> (error \<Rightarrow> 'a io) \<Rightarrow> 'a io" where
  "catchIO m h = (\<lambda>tr. case m tr of (Inl e, tr') \<Rightarrow> h e tr' | (Inr x, tr') \<Rightarrow> (Inr x, tr'))"

definition emit :: "event \<Rightarrow> unit io" where
  "emit ev = (\<lambda>tr. (Inr (), tr @ [ev]))"

subsection \<open>The collaborators\<close>

text \<open>What \<open>parseRepoUrl\<close> returns, as far as the actions read it.\<close>

record repo_location =
  project :: "string option"
  repo :: string
  host :: string

text \<open>The \<open>config\<close> of a Bitbucket Server integration.\<close>

record integration_config =
  config_host :: string
  apiBaseUrl :: string
  token :: "string option"
  username :: "string option"
  password :: "string option"

text \<open>
  The environment of an action. \<open>fetch\<close>, \<open>initRepoAndPush\<close> and \<open>git\<close> answer
  depending on the trace so far, so that a server may answer a second request
  differently from the first. \<open>getBitbucketServerRequestOptions\<close> gives the
  \<open>Authorization\<close> header it builds, if any. \<open>JSON_stringify\<close>, \<open>URLSearchParams\<close> and
  \<open>typeErrorMessage\<close> (the wording of the runtime's TypeErrors) belong to the runtime.
\<close>

record env =
  parseRepoUrl :: "string \<Rightarrow> error + repo_location"
  byHost :: "string \<Rightarrow> integration_config option"
  getBitbucketServerRequestOptions :: "integration_config \<Rightarrow> string option"
  fetch :: "trace \<Rightarrow> request \<Rightarrow> error + response"
  initRepoAndPush :: "trace \<Rightarrow> push_args \<Rightarrow> error + string option"
  git :: "trace \<Rightarrow> git_call \<Rightarrow> error + unit"
  getRepoSourceDirectory :: "string \<Rightarrow> string option \<Rightarrow> error + string"
  getOptionalString :: "string \<Rightarrow> error + string option"
  JSON_stringify :: "jsval \<Rightarrow> string"
  URLSearchParams :: "(string \<times> string) list \<Rightarrow> string"
  typeErrorMessage :: "type_error \<Rightarrow> string"

definition fetchIO :: "env \<Rightarrow> request \<Rightarrow> response io" where
  "fetchIO e req = (\<lambda>tr. (fetch e tr req, tr @ [Fetch req]))"

definition initRepoAndPushIO :: "env \<Rightarrow> push_args \<Rightarrow> (string option) io" where
  "initRepoAndPushIO e args = (\<lambda>tr. (initRepoAndPush e tr args, tr @ [InitRepoAndPush args]))"

definition gitIO :: "env \<Rightarrow> git_call \<Rightarrow> unit io" where
  "gitIO e c = (\<lambda>tr. (git e tr c, tr @ [Git c]))"

text \<open>
  \<open>`${e}`\<close> for a caught exception: the name, a colon and the message, as
  \<open>Error.prototype.toString\<close> puts them together.
\<close>

definition name_and_message :: "string \<Rightarrow> string \<Rightarrow> string" where
  "name_and_message n m = (if n = [] then m else if m = [] then n else n @ '': '' @ m)"

fun error_toString :: "env \<Rightarrow> error \<Rightarrow> string" where
  "error_toString e (InputError m) = name_and_message ''InputError'' m"
| "error_toString e (Error m) = name_and_message ''Error'' m"
| "error_toString e (TypeError t) = name_and_message ''TypeError'' (typeErrorMessage e t)"
| "error_toString e (Thrown n m) = name_and_message n m"

text \<open>
  A string that may be missing, in a condition: \<open>undefined\<close> and the empty string are
  falsy. \<open>truthy\<close> gives the string when the condition holds.
\<close>

definition truthy :: "string option \<Rightarrow> string option" where
  "truthy x = (case x of None \<Rightarrow> None | Some s \<Rightarrow> if s = [] then None else Some s)"

definition falsy :: "string option \<Rightarrow> bool" where
  "falsy x = (truthy x = None)"

text \<open>An array in a condition: every array, the empty one too, is truthy.\<close>

definition truthy_array :: "'a list \<Rightarrow> bool" where
  "truthy_array xs = True"

text \<open>\<open>a ?? b\<close>: the right operand only when the left one is missing.\<close>

definition nullish :: "'a option \<Rightarrow> 'a option \<Rightarrow> 'a option" where
  "nullish a b = (case a of None \<Rightarrow> b | Some x \<Rightarrow> Some x)"

text \<open>A destructuring default \<open>{ x = d }\<close>: \<open>d\<close> only when \<open>x\<close> is missing.\<close>

definition default_to :: "'a \<Rightarrow> 'a option \<Rightarrow> 'a" where
  "default_to d x = (case x of None \<Rightarrow> d | Some v \<Rightarrow> v)"

subsection \<open>Repository lookup\<close>

definition get_options :: "string \<Rightarrow> string \<Rightarrow> request" where
  "get_options auth_header u =
     \<lparr>url = u, httpMethod = ''GET'', authorization = auth_header,
      contentType = Some ''application/json'', body = None\<rparr>"

text \<open>
  The loop over the clone links: \<open>remoteUrl\<close> becomes the \<open>href\<close> of every link named
  \<open>http\<close> in turn.
\<close>

fun clone_loop :: "jsval list \<Rightarrow> jsval \<Rightarrow> error + jsval" where
  "clone_loop [] remoteUrl = Inr remoteUrl"
| "clone_loop (link # links) remoteUrl =
     bindE (getProp link ''name'') (\<lambda>n.
       if n = JStr ''http''
       then bindE (getProp link ''href'') (\<lambda>h. clone_loop links h)
       else clone_loop links remoteUrl)"

text \<open>The statements \<open>let remoteUrl = ''; for (const link of r.links.clone) ...\<close>\<close>

definition http_clone_url :: "jsval \<Rightarrow> error + jsval" where
  "http_clone_url r =
     bindE (getProp r ''links'') (\<lambda>links.
     bindE (getProp links ''clone'') (\<lambda>clone.
     bindE (iterate clone) (\<lambda>items. clone_loop items (JStr []))))"

text \<open>The expression \<open>r.links.self[0].href\<close>\<close>

definition self_href :: "jsval \<Rightarrow> error + jsval" where
  "self_href r =
     bindE (getProp r ''links'') (\<lambda>links.
     bindE (getProp links ''self'') (\<lambda>self.
     bindE (getIndex self 0) (\<lambda>first. getProp first ''href'')))"

record repo_info =
  remoteUrl :: jsval
  repoContentsUrl :: string
  repoId :: jsval

text \<open>\<open>getRepoInfo\<close> of \<open>bitbucketServerUtil\<close>.\<close>

definition getRepoInfo :: "env \<Rightarrow> string \<Rightarrow> string \<Rightarrow> string \<Rightarrow> string \<Rightarrow> repo_info io" where
  "getRepoInfo e proj rep auth_header base =
     bindIO
       (catchIO
          (fetchIO e (get_options auth_header (base @ ''/projects/'' @ proj @ ''/repos/'' @ rep)))
          (\<lambda>x. throwIO (Error (''Unable to get repository details, '' @ error_toString e x))))
       (\<lambda>response.
          if status response \<noteq> 200
          then throwIO (Error (''Unable to get repository details, '' @ decimal (status response)
                 @ '' '' @ statusText response @ '', '' @ bodyText response))
          else bindIO (liftE (json response)) (\<lambda>r. liftE (
            bindE (getProp r ''id'') (\<lambda>i.
            bindE (http_clone_url r) (\<lambda>u.
            bindE (self_href r) (\<lambda>h.
            bindE (ToString h) (\<lambda>c.
              Inr \<lparr>remoteUrl = u, repoContentsUrl = c, repoId = i\<rparr>)))))))"

text \<open>
  The \<open>getRepoInfo\<close> local to the repository clone action: the same request, without the
  identifier. It returns \<open>remoteUrl\<close> and \<open>repoContentsUrl\<close>.
\<close>

definition getRepoInfo_clone :: "env \<Rightarrow> string \<Rightarrow> string \<Rightarrow> string \<Rightarrow> string \<Rightarrow>
    (jsval \<times> string) io" where
  "getRepoInfo_clone e proj rep auth_header base =
     bindIO
       (catchIO
          (fetchIO e (get_options auth_header (base @ ''/projects/'' @ proj @ ''/repos/'' @ rep)))
          (\<lambda>x. throwIO (Error (''Unable to get repository details, '' @ error_toString e x))))
       (\<lambda>response.
          if status response \<noteq> 200
          then throwIO (Error (''Unable to get repository details, '' @ decimal (status response)
                 @ '' '' @ statusText response @ '', '' @ bodyText response))
          else bindIO (liftE (json response)) (\<lambda>r. liftE (
            bindE (http_clone_url r) (\<lambda>u.
            bindE (self_href r) (\<lambda>h.
            bindE (ToString h) (\<lambda>c. Inr (u, c)))))))"

text \<open>\<open>getRepositoryRemoteUrl\<close> of the publish push action.\<close>

definition getRepositoryRemoteUrl :: "env \<Rightarrow> string \<Rightarrow> string \<Rightarrow> string \<Rightarrow> string \<Rightarrow> jsval io" where
  "getRepositoryRemoteUrl e proj rep auth_header base =
     bindIO
       (catchIO
          (fetchIO e (get_options auth_header (base @ ''/projects/'' @ proj @ ''/repos/'' @ rep)))
          (\<lambda>x. throwIO (Error (''Unable to get repository details, '' @ error_toString e x))))
       (\<lambda>response.
          if status response \<noteq> 200
          then throwIO (Error (''Unable to get repository details, '' @ decimal (status response)
                 @ '' '' @ statusText response @ '', '' @ bodyText response))
          else bindIO (liftE (json response)) (\<lambda>r. liftE (http_clone_url r)))"

subsection \<open>Required reviewers\<close>

definition getRequiredReviewers :: "env \<Rightarrow> string \<Rightarrow> string \<Rightarrow> jsval \<Rightarrow> string \<Rightarrow> jsval \<Rightarrow>
    string \<Rightarrow> string \<Rightarrow> string \<Rightarrow> jsval io" where
  "getRequiredReviewers e projectKey repositorySlug sourceRepoId sourceRefId targetRepoId
       targetRefId auth_header base =
     bindIO
       (catchIO
          (bindIO (liftE (ToString sourceRepoId)) (\<lambda>source_id.
           bindIO (liftE (ToString targetRepoId)) (\<lambda>target_id.
             fetchIO e (get_options auth_header
               (replace_first ''api'' ''default-reviewers'' base
                  @ ''/projects/'' @ projectKey @ ''/repos/'' @ repositorySlug @ ''/reviewers''
                  @ ''?'' @ URLSearchParams e
                      [(''sourceRepoId'', source_id),
                       (''sourceRefId'', sourceRefId),
                       (''targetRepoId'', target_id),
                       (''targetRefId'', targetRefId)])))))
          (\<lambda>x. throwIO (Error (''Unable to get default reviewers, '' @ error_toString e x))))
       (\<lambda>response.
          if status response \<noteq> 200
          then throwIO (Error (''Unable to get default reviewers, '' @ decimal (status response)
                 @ '' '' @ statusText response @ '', '' @ bodyText response))
          else liftE (json response))"

subsection \<open>Repository creation\<close>

datatype visibility = Private | Public

definition create_options :: "env \<Rightarrow> string \<Rightarrow> string \<Rightarrow> string \<Rightarrow> string option \<Rightarrow>
    visibility \<Rightarrow> string \<Rightarrow> string \<Rightarrow> request" where
  "create_options e proj rep base description repoVisibility branch auth_header =
     \<lparr>url = base @ ''/projects/'' @ proj @ ''/repos'',
      httpMethod = ''POST'',
      authorization = auth_header,
      contentType = Some ''application/json'',
      body = Some (JSON_stringify e (JObj
        [(''name'', JStr rep),
         (''description'', case description of None \<Rightarrow> JUndefined | Some d \<Rightarrow> JStr d),
         (''defaultBranch'', JStr branch),
         (''public'', JBool (repoVisibility = Public))]))\<rparr>"

definition createRepository :: "env \<Rightarrow> string \<Rightarrow> string \<Rightarrow> string option \<Rightarrow> visibility \<Rightarrow>
    string \<Rightarrow> string \<Rightarrow> string \<Rightarrow> repo_info io" where
  "createRepository e proj rep description repoVisibility branch auth_header base =
     bindIO
       (catchIO
          (fetchIO e (create_options e proj rep base description repoVisibility branch auth_header))
          (\<lambda>x. throwIO (Error (''Unable to create repository, '' @ error_toString e x))))
       (\<lambda>response.
          if status response = 409
          then bindIO (emit (LogInfo (''A repository with name('' @ rep @ '') already exists.'')))
                 (\<lambda>_. getRepoInfo e proj rep auth_header base)
          else if status response \<noteq> 201 \<and> status response \<noteq> 409
          then throwIO (Error (''Unable to create repository, '' @ decimal (status response)
                 @ '' '' @ statusText response @ '', '' @ bodyText response))
          else bindIO (liftE (json response)) (\<lambda>r. liftE (
            bindE (getProp r ''id'') (\<lambda>i.
            bindE (http_clone_url r) (\<lambda>u.
            bindE (self_href r) (\<lambda>h.
            bindE (ToString h) (\<lambda>c.
              Inr \<lparr>remoteUrl = u, repoContentsUrl = c, repoId = i\<rparr>)))))))"

definition lfs_options :: "string \<Rightarrow> string \<Rightarrow> string \<Rightarrow> string \<Rightarrow> request" where
  "lfs_options auth_header h proj rep =
     \<lparr>url = ''https://'' @ h @ ''/rest/git-lfs/admin/projects/'' @ proj @ ''/repos/'' @ rep
         @ ''/enabled'',
      httpMethod = ''PUT'', authorization = auth_header, contentType = None, body = None\<rparr>"

definition performEnableLFS :: "env \<Rightarrow> string \<Rightarrow> string \<Rightarrow> string \<Rightarrow> string \<Rightarrow> unit io" where
  "performEnableLFS e auth_header h proj rep =
     bindIO (fetchIO e (lfs_options auth_header h proj rep))
       (\<lambda>response.
          if \<not> ok response
          then throwIO (Error (''Failed to enable LFS in the repository, ''
                 @ decimal (status response) @ '': '' @ statusText response))
          else returnIO ())"

subsection \<open>Pull request creation\<close>

text \<open>The reviewer list as it goes into the payload: \<open>[{ user: { name } }, ...]\<close>.\<close>

definition reviewers_json :: "User list \<Rightarrow> jsval" where
  "reviewers_json us = JArr (map (\<lambda>u. JObj [(''user'', JObj [(''name'', name u)])]) us)"

definition ref_json :: "string \<Rightarrow> string \<Rightarrow> string \<Rightarrow> jsval" where
  "ref_json proj rep branch_name =
     JObj [(''repository'', JObj [(''slug'', JStr rep), (''project'', JObj [(''key'', JStr proj)])]),
           (''id'', JStr (''refs/heads/'' @ branch_name)),
           (''type'', JStr ''BRANCH'')]"

text \<open>
  The payload. \<open>description\<close> is a string in every call, so \<open>description ?? title\<close> is
  the description.
\<close>

definition pull_request_json :: "string \<Rightarrow> string \<Rightarrow> jsval \<Rightarrow> string \<Rightarrow> string \<Rightarrow> string \<Rightarrow>
    string \<Rightarrow> jsval" where
  "pull_request_json title description reviewersObject proj rep sourceBranch targetBranch =
     JObj [(''title'', JStr title),
           (''description'', JStr description),
           (''reviewers'', reviewersObject),
           (''fromRef'', ref_json proj rep sourceBranch),
           (''toRef'', ref_json proj rep targetBranch)]"

definition pull_request_options :: "env \<Rightarrow> string \<Rightarrow> string \<Rightarrow> jsval \<Rightarrow> string \<Rightarrow> string \<Rightarrow>
    string \<Rightarrow> string \<Rightarrow> string \<Rightarrow> string \<Rightarrow> request" where
  "pull_request_options e title description reviewersObject proj rep sourceBranch targetBranch
       auth_header base =
     \<lparr>url = base @ ''/projects/'' @ proj @ ''/repos/'' @ rep @ ''/pull-requests'',
      httpMethod = ''POST'',
      authorization = auth_header,
      contentType = Some ''application/json'',
      body = Some (JSON_stringify e
        (pull_request_json title description reviewersObject proj rep sourceBranch targetBranch))\<rparr>"

record pr_result =
  pr_remoteUrl :: jsval
  prUrl :: jsval

text \<open>The loop over \<open>r.fromRef.repository.links.clone\<close>.\<close>

definition fromRef_clone_url :: "jsval \<Rightarrow> error + jsval" where
  "fromRef_clone_url r =
     bindE (getProp r ''fromRef'') (\<lambda>fromRef.
     bindE (getProp fromRef ''repository'') (\<lambda>repository.
     bindE (getProp repository ''links'') (\<lambda>links.
     bindE (getProp links ''clone'') (\<lambda>clone.
     bindE (iterate clone) (\<lambda>items. clone_loop items (JStr []))))))"

text \<open>The \<open>try\<close> block that reads the created pull request, with its \<open>catch\<close>.\<close>

definition read_pull_request :: "env \<Rightarrow> jsval \<Rightarrow> error + pr_result" where
  "read_pull_request e r =
     (case bindE (fromRef_clone_url r) (\<lambda>u.
           bindE (self_href r) (\<lambda>p. Inr \<lparr>pr_remoteUrl = u, prUrl = p\<rparr>)) of
        Inl x \<Rightarrow> Inl (Error (''Unable to create pull request,'' @ JSON_stringify e r
                   @ '',  '' @ error_toString e x))
      | Inr res \<Rightarrow> Inr res)"

text \<open>The statement \<open>if (reviewers) ... else ...\<close> that chooses the reviewer list.\<close>

definition reviewersObject_of :: "string list \<Rightarrow> jsval \<Rightarrow> error + jsval" where
  "reviewersObject_of reviewers requiredReviewers =
     (if truthy_array reviewers
      then bindE (getReviewers reviewers requiredReviewers) (\<lambda>us. Inr (reviewers_json us))
      else Inr requiredReviewers)"

definition createPullRequest :: "env \<Rightarrow> string \<Rightarrow> string \<Rightarrow> string \<Rightarrow> string \<Rightarrow> string \<Rightarrow>
    string \<Rightarrow> string list option \<Rightarrow> string \<Rightarrow> string \<Rightarrow> pr_result io" where
  "createPullRequest e title description proj rep sourceBranch targetBranch reviewers_opt
       auth_header base =
     (let reviewers = default_to [] reviewers_opt in
      bindIO (getRepoInfo e proj rep auth_header base) (\<lambda>repoInfo.
      bindIO (getRequiredReviewers e proj rep (repoId repoInfo) (''refs/heads/'' @ sourceBranch)
                (repoId repoInfo) (''refs/heads/'' @ targetBranch) auth_header base)
        (\<lambda>requiredReviewers.
      bindIO (liftE (reviewersObject_of reviewers requiredReviewers)) (\<lambda>reviewersObject.
      bindIO
        (catchIO
           (fetchIO e (pull_request_options e title description reviewersObject proj rep
              sourceBranch targetBranch auth_header base))
           (\<lambda>x. throwIO (Error (''Unable to create pull request, '' @ error_toString e x))))
        (\<lambda>response.
           if status response \<noteq> 201
           then throwIO (Error (''Unable to create pull request, '' @ decimal (status response)
                  @ '' '' @ statusText response @ '', '' @ bodyText response))
           else bindIO (liftE (json response)) (\<lambda>r. liftE (read_pull_request e r)))))))"

subsection \<open>The action handlers\<close>

text \<open>
  The five handlers begin with the same statements, word for word: parse the repository
  location, reject a missing project, find the integration of the host, resolve the
  token, build the request options and reject a missing authorization. None of these
  statements has an effect on the outside.
\<close>

record target =
  target_project :: string
  target_repo :: string
  target_host :: string
  integrationConfig :: integration_config
  authConfig :: integration_config
  target_authorization :: string

definition handler_prelude :: "env \<Rightarrow> string \<Rightarrow> string option \<Rightarrow> error + target" where
  "handler_prelude e repo_url input_token =
     bindE (parseRepoUrl e repo_url) (\<lambda>loc.
       case truthy (project loc) of
         None \<Rightarrow> Inl (InputError (''Invalid URL provider was included in the repo URL to create ''
                   @ repo_url @ '', missing project''))
       | Some proj \<Rightarrow>
          (case byHost e (host loc) of
             None \<Rightarrow> Inl (InputError (''No matching integration configuration for host ''
                       @ host loc @ '', please check your integrations config''))
           | Some cfg \<Rightarrow>
              (let resolved = nullish input_token (token cfg);
                   auth_config = cfg\<lparr>token := resolved\<rparr>
               in case truthy (getBitbucketServerRequestOptions e auth_config) of
                    None \<Rightarrow> Inl (Error (''Authorization has not been provided for ''
                      @ config_host cfg @ ''. Please add either (a) a user login auth token, ''
                      @ ''or (b) a token or (c) username + password to the integration config.''))
                  | Some a \<Rightarrow>
                      Inr \<lparr>target_project = proj, target_repo = repo loc,
                           target_host = host loc, integrationConfig = cfg,
                           authConfig = auth_config, target_authorization = a\<rparr>)))"

text \<open>
  The credentials for git: the token when \<open>authConfig.token\<close> is truthy, the configured
  user name and password otherwise.
\<close>

definition git_auth :: "integration_config \<Rightarrow> auth" where
  "git_auth auth_config =
     (case truthy (token auth_config) of
        Some t \<Rightarrow> TokenAuth t
      | None \<Rightarrow> BasicAuth (username auth_config) (password auth_config))"

text \<open>The expression \<open>x ? x : config.getOptionalString(key)\<close>.\<close>

definition or_config :: "env \<Rightarrow> string option \<Rightarrow> string \<Rightarrow> error + string option" where
  "or_config e x key = (case truthy x of Some v \<Rightarrow> Inr (Some v) | None \<Rightarrow> getOptionalString e key)"

definition output_string :: "string option \<Rightarrow> jsval" where
  "output_string x = (case x of None \<Rightarrow> JUndefined | Some s \<Rightarrow> JStr s)"

record action_input =
  repoUrl :: string
  inputToken :: "string option"

record commit_input = action_input +
  sourcePath :: "string option"
  gitCommitMessage :: "string option"
  gitAuthorName :: "string option"
  gitAuthorEmail :: "string option"

record push_input = commit_input +
  targetBranch :: "string option"

record branch_push_input = commit_input +
  branch :: string

record clone_input = action_input +
  baseBranch :: "string option"
  checkoutBranch :: string
  clonePath :: "string option"

record create_input = action_input +
  description :: "string option"
  inputDefaultBranch :: "string option"
  repoVisibility :: "visibility option"
  enableLFS :: "bool option"

text \<open>The pull request action does not read its \<open>sourcePath\<close> input.\<close>

record pr_input = action_input +
  title :: string
  prDescription :: string
  sourceBranch :: string
  prTargetBranch :: string
  reviewers :: "string list option"

text \<open>\<open>publish:bitbucketServer:push\<close>\<close>

definition publish_push_handler :: "env \<Rightarrow> push_input \<Rightarrow> string \<Rightarrow> unit io" where
  "publish_push_handler e inp workspacePath =
     (let target_branch = default_to ''backstage/update'' (targetBranch inp);
          git_commit_message = default_to ''commit by backstage'' (gitCommitMessage inp)
      in
      bindIO (liftE (handler_prelude e (repoUrl inp) (inputToken inp))) (\<lambda>t.
      bindIO (liftE (or_config e (gitAuthorName inp) ''scaffolder.defaultAuthor.name'')) (\<lambda>n.
      bindIO (liftE (or_config e (gitAuthorEmail inp) ''scaffolder.defaultAuthor.email'')) (\<lambda>m.
      bindIO (getRepositoryRemoteUrl e (target_project t) (target_repo t)
                (target_authorization t) (apiBaseUrl (integrationConfig t))) (\<lambda>remote.
      bindIO (liftE (getRepoSourceDirectory e workspacePath (sourcePath inp))) (\<lambda>d.
      bindIO (liftE (or_config e (Some git_commit_message) ''scaffolder.defaultCommitMessage''))
        (\<lambda>msg.
      bindIO (initRepoAndPushIO e
                \<lparr>dir = d, push_remoteUrl = remote, push_auth = git_auth (authConfig t),
                 defaultBranch = target_branch, commitMessage = msg,
                 gitAuthorInfo = (n, m)\<rparr>) (\<lambda>commitHash.
      bindIO (emit (Output ''commitHash'' (output_string commitHash))) (\<lambda>_.
      emit (Output ''remoteUrl'' remote))))))))))"

text \<open>\<open>bitbucketServer:branch:push\<close>\<close>

definition branch_push_handler :: "env \<Rightarrow> branch_push_input \<Rightarrow> string \<Rightarrow> unit io" where
  "branch_push_handler e inp workspacePath =
     (let git_commit_message = default_to ''init commit by backstage'' (gitCommitMessage inp)
      in
      bindIO (liftE (handler_prelude e (repoUrl inp) (inputToken inp))) (\<lambda>t.
      bindIO (liftE (or_config e (gitAuthorName inp) ''scaffolder.defaultAuthor.name'')) (\<lambda>n.
      bindIO (liftE (or_config e (gitAuthorEmail inp) ''scaffolder.defaultAuthor.email'')) (\<lambda>m.
      bindIO (getRepoInfo e (target_project t) (target_repo t)
                (target_authorization t) (apiBaseUrl (integrationConfig t))) (\<lambda>info.
      bindIO (liftE (getRepoSourceDirectory e workspacePath (sourcePath inp))) (\<lambda>d.
      bindIO (liftE (or_config e (Some git_commit_message) ''scaffolder.defaultCommitMessage''))
        (\<lambda>msg.
      bindIO (initRepoAndPushIO e
                \<lparr>dir = d, push_remoteUrl = remoteUrl info, push_auth = git_auth (authConfig t),
                 defaultBranch = branch inp, commitMessage = msg,
                 gitAuthorInfo = (n, m)\<rparr>) (\<lambda>commitHash.
      bindIO (emit (Output ''commitHash'' (output_string commitHash))) (\<lambda>_.
      emit (Output ''remoteUrl'' (remoteUrl info)))))))))))"

text \<open>\<open>publish:bitbucketServer:repo:clone\<close>\<close>

definition repo_clone_handler :: "env \<Rightarrow> clone_input \<Rightarrow> string \<Rightarrow> unit io" where
  "repo_clone_handler e inp workspacePath =
     (let base_branch = default_to ''master'' (baseBranch inp);
          clone_path = default_to workspacePath (clonePath inp)
      in
      bindIO (liftE (handler_prelude e (repoUrl inp) (inputToken inp))) (\<lambda>t.
      let a = git_auth (authConfig t) in
      bindIO (getRepoInfo_clone e (target_project t) (target_repo t)
                (target_authorization t) (apiBaseUrl (integrationConfig t)))
        (\<lambda>(remote, contents).
      bindIO (gitIO e (GitClone a remote clone_path base_branch)) (\<lambda>_.
      bindIO (gitIO e (GitBranch a clone_path (checkoutBranch inp))) (\<lambda>_.
      bindIO (gitIO e (GitCheckout a clone_path (checkoutBranch inp))) (\<lambda>_.
      bindIO (emit (Output ''remoteUrl'' remote)) (\<lambda>_.
      bindIO (emit (Output ''repoContentsUrl'' (JStr contents))) (\<lambda>_.
      emit (Output ''clonePath'' (JStr clone_path))))))))))"

text \<open>\<open>bitbucketServer:repo:create\<close>\<close>

definition repo_create_handler :: "env \<Rightarrow> create_input \<Rightarrow> unit io" where
  "repo_create_handler e inp =
     (let default_branch = default_to ''master'' (inputDefaultBranch inp);
          repo_visibility = default_to Private (repoVisibility inp);
          enable_lfs = default_to False (enableLFS inp)
      in
      bindIO (liftE (handler_prelude e (repoUrl inp) (inputToken inp))) (\<lambda>t.
      bindIO (createRepository e (target_project t) (target_repo t) (description inp)
                repo_visibility default_branch (target_authorization t)
                (apiBaseUrl (integrationConfig t))) (\<lambda>info.
      bindIO (if enable_lfs
              then performEnableLFS e (target_authorization t) (target_host t)
                     (target_project t) (target_repo t)
              else returnIO ()) (\<lambda>_.
      bindIO (emit (Output ''remoteUrl'' (remoteUrl info))) (\<lambda>_.
      bindIO (emit (Output ''repoContentsUrl'' (JStr (repoContentsUrl info)))) (\<lambda>_.
      emit (Output ''repoId'' (repoId info))))))))"

text \<open>\<open>bitbucketServer:pullRequest:open\<close>\<close>

definition pull_request_handler :: "env \<Rightarrow> pr_input \<Rightarrow> unit io" where
  "pull_request_handler e inp =
     (let requested = default_to [] (reviewers inp) in
      bindIO (liftE (handler_prelude e (repoUrl inp) (inputToken inp))) (\<lambda>t.
      bindIO (emit (LogInfo (''Creating pull request {repo: '' @ repoUrl inp
                @ '', sourceBranch: '' @ sourceBranch inp
                @ '', targetBranch: '' @ prTargetBranch inp))) (\<lambda>_.
      bindIO (createPullRequest e (title inp) (prDescription inp) (target_project t)
                (target_repo t) (sourceBranch inp) (prTargetBranch inp) (Some requested)
                (target_authorization t) (apiBaseUrl (integrationConfig t))) (\<lambda>res.
      bindIO (liftE (ToString (prUrl res))) (\<lambda>created.
      bindIO (emit (LogInfo (''Created pull request: '' @ created))) (\<lambda>_.
      bindIO (emit (Output ''remoteUrl'' (pr_remoteUrl res))) (\<lambda>_.
      emit (Output ''prUrl'' (prUrl res)))))))))"

text \<open>
  The description of \<open>targetBranch\<close> in the input schema of
  \<open>publish:bitbucketServer:push\<close>.
\<close>

definition targetBranch_description :: string where
  "targetBranch_description =
     ''Sets the target branch for the pull request. The default value is ''
       @ [CHR 0x27] @ ''master'' @ [CHR 0x27]"

subsection \<open>Notions for stating the properties\<close>

text \<open>The calls of \<open>initRepoAndPush\<close> and the requests in a trace, in order.\<close>

definition push_calls :: "trace \<Rightarrow> push_args list" where
  "push_calls tr = concat (map (\<lambda>ev. case ev of InitRepoAndPush a \<Rightarrow> [a] | _ \<Rightarrow> []) tr)"

definition fetches :: "trace \<Rightarrow> request list" where
  "fetches tr = concat (map (\<lambda>ev. case ev of Fetch r \<Rightarrow> [r] | _ \<Rightarrow> []) tr)"

text \<open>
  The \<open>href\<close> of the clone link named \<open>http\<close>, of the last one if there are several, and
  the empty string if there is none. The links are given by their properties.
\<close>

definition http_href :: "(string \<times> jsval) list list \<Rightarrow> jsval" where
  "http_href ls =
     (case filter (\<lambda>kv. own_property kv ''name'' = JStr ''http'') ls of
        [] \<Rightarrow> JStr []
      | h # hs \<Rightarrow> own_property (last (h # hs)) ''href'')"



subsection \<open>An example server\<close>

definition example_location :: repo_location where
  "example_location = \<lparr>project = Some ''TEAM'', repo = ''svc'', host = ''bitbucket.example.com''\<rparr>"

definition example_location_no_project :: repo_location where
  "example_location_no_project =
     \<lparr>project = None, repo = ''svc'', host = ''bitbucket.example.com''\<rparr>"

definition example_repoUrl :: string where
  "example_repoUrl = ''bitbucket.example.com?project=TEAM&repo=svc''"

definition example_repoUrl_no_project :: string where
  "example_repoUrl_no_project = ''bitbucket.example.com?repo=svc''"

definition example_config :: integration_config where
  "example_config =
     \<lparr>config_host = ''bitbucket.example.com'',
      apiBaseUrl = ''https://bitbucket.example.com/rest/api/1.0'',
      token = Some ''abc'', username = Some ''u'', password = Some ''p''\<rparr>"

text \<open>A stand-in for the request options: a bearer token, else user name and password.\<close>

definition example_request_options :: "integration_config \<Rightarrow> string option" where
  "example_request_options c =
     (case truthy (token c) of
        Some t \<Rightarrow> Some (''Bearer '' @ t)
      | None \<Rightarrow>
         (case (truthy (username c), truthy (password c)) of
            (Some u, Some p) \<Rightarrow> Some (''Basic '' @ u @ '':'' @ p)
          | _ \<Rightarrow> None))"

definition example_repo_json :: jsval where
  "example_repo_json =
     JObj [(''slug'', JStr ''svc''),
           (''id'', JNum 42),
           (''links'', JObj
              [(''clone'', JArr
                 [JObj [(''href'', JStr ''ssh://git@bitbucket.example.com/team/svc.git''),
                        (''name'', JStr ''ssh'')],
                  JObj [(''href'', JStr ''https://bitbucket.example.com/scm/team/svc.git''),
                        (''name'', JStr ''http'')]]),
               (''self'', JArr
                 [JObj [(''href'',
                    JStr ''https://bitbucket.example.com/projects/TEAM/repos/svc/browse'')]])])]"

definition example_repo_response :: response where
  "example_repo_response =
     \<lparr>status = 200, statusText = ''OK'', bodyText = ''{}'', json = Inr example_repo_json\<rparr>"

definition example_reviewers_response :: response where
  "example_reviewers_response =
     \<lparr>status = 200, statusText = ''OK'', bodyText = ''[]'',
      json = Inr (JArr [JObj [(''name'', JStr ''alice''), (''id'', JNum 7)],
                        JObj [(''name'', JStr ''bob''), (''id'', JNum 8)]])\<rparr>"

text \<open>
  The server answers a PUT and a POST as given, a GET of the repository with the
  repository and any other GET with the required reviewers.
\<close>

definition example_server :: "response \<Rightarrow> response \<Rightarrow> trace \<Rightarrow> request \<Rightarrow> error + response" where
  "example_server post_response put_response tr req =
     (if httpMethod req = ''PUT'' then Inr put_response
      else if httpMethod req = ''POST'' then Inr post_response
      else if url req = ''https://bitbucket.example.com/rest/api/1.0/projects/TEAM/repos/svc''
      then Inr example_repo_response
      else Inr example_reviewers_response)"

definition example_env :: "repo_location \<Rightarrow> (trace \<Rightarrow> request \<Rightarrow> error + response) \<Rightarrow> env" where
  "example_env loc server =
     \<lparr>parseRepoUrl = (\<lambda>u. Inr loc),
      byHost = (\<lambda>h. if h = ''bitbucket.example.com'' then Some example_config else None),
      getBitbucketServerRequestOptions = example_request_options,
      fetch = server,
      initRepoAndPush = (\<lambda>tr args. Inr (Some ''0a1b2c'')),
      git = (\<lambda>tr c. Inr ()),
      getRepoSourceDirectory = (\<lambda>ws p. Inr ws),
      getOptionalString = (\<lambda>k. Inr None),
      JSON_stringify = (\<lambda>v. ''{}''),
      URLSearchParams = (\<lambda>ps. ''q''),
      typeErrorMessage = (\<lambda>t. ''not readable'')\<rparr>"

definition conflict_response :: response where
  "conflict_response =
     \<lparr>status = 409, statusText = ''Conflict'', bodyText = ''exists'',
      json = Inr (JObj [])\<rparr>"

definition server_error_response :: response where
  "server_error_response =
     \<lparr>status = 500, statusText = ''Internal Server Error'', bodyText = ''boom'',
      json = Inr (JObj [])\<rparr>"

definition not_found_response :: response where
  "not_found_response =
     \<lparr>status = 404, statusText = ''Not Found'', bodyText = ''none'', json = Inr (JObj [])\<rparr>"

definition no_content_response :: response where
  "no_content_response =
     \<lparr>status = 204, statusText = ''No Content'', bodyText = [], json = Inr JNull\<rparr>"


definition created_pull_request_response :: response where
  "created_pull_request_response =
     \<lparr>status = 201, statusText = ''Created'', bodyText = ''{}'',
      json = Inr (JObj [(''id'', JNum 1),
                        (''fromRef'', JObj [(''repository'', example_repo_json)]),
                        (''links'', JObj [(''self'', JArr [JObj [(''href'',
                           JStr ''https://bitbucket.example.com/pr/1'')]])])])\<rparr>"



definition example_push_input :: "string \<Rightarrow> string option \<Rightarrow> push_input" where
  "example_push_input u tok =
     \<lparr>repoUrl = u, inputToken = tok,
      sourcePath = None, gitCommitMessage = None, gitAuthorName = None,
      gitAuthorEmail = None, targetBranch = None\<rparr>"

definition example_branch_push_input :: "string \<Rightarrow> branch_push_input" where
  "example_branch_push_input u =
     \<lparr>repoUrl = u, inputToken = None,
      sourcePath = None, gitCommitMessage = None, gitAuthorName = None,
      gitAuthorEmail = None, branch = ''feature/update''\<rparr>"

definition example_clone_input :: "string \<Rightarrow> clone_input" where
  "example_clone_input u =
     \<lparr>repoUrl = u, inputToken = None,
      baseBranch = None, checkoutBranch = ''feature/update'', clonePath = None\<rparr>"

definition example_create_input :: "string \<Rightarrow> bool option \<Rightarrow> create_input" where
  "example_create_input u lfs =
     \<lparr>repoUrl = u, inputToken = None,
      description = None, inputDefaultBranch = None, repoVisibility = None,
      enableLFS = lfs\<rparr>"

definition example_pr_input :: "string \<Rightarrow> pr_input" where
  "example_pr_input u =
     \<lparr>repoUrl = u, inputToken = None,
      title = ''Update'', prDescription = ''Update by backstage'',
      sourceBranch = ''feature/update'', prTargetBranch = ''main'', reviewers = None\<rparr>"

definition example_info :: repo_info where
  "example_info =
     \<lparr>remoteUrl = JStr ''https://bitbucket.example.com/scm/team/svc.git'',
      repoContentsUrl = ''https://bitbucket.example.com/projects/TEAM/repos/svc/browse'',
      repoId = JNum 42\<rparr>"

definition example_lookup_request :: request where
  "example_lookup_request =
     get_options ''Bearer abc''
       ''https://bitbucket.example.com/rest/api/1.0/projects/TEAM/repos/svc''"

definition example_reviewers_request :: request where
  "example_reviewers_request =
     get_options ''Bearer abc''
       ''https://bitbucket.example.com/rest/default-reviewers/1.0/projects/TEAM/repos/svc/reviewers?q''"

definition example_target :: "string option \<Rightarrow> target" where
  "example_target tok =
     \<lparr>target_project = ''TEAM'', target_repo = ''svc'',
      target_host = ''bitbucket.example.com'', integrationConfig = example_config,
      authConfig = example_config\<lparr>token := nullish tok (Some ''abc'')\<rparr>,
      target_authorization =
        (case truthy (nullish tok (Some ''abc'')) of
           Some t \<Rightarrow> ''Bearer '' @ t
         | None \<Rightarrow> ''Basic u:p'')\<rparr>"

definition example_create_request :: "env \<Rightarrow> request" where
  "example_create_request e =
     create_options e ''TEAM'' ''svc'' ''https://bitbucket.example.com/rest/api/1.0'' None
       Private ''master'' ''Bearer abc''"

definition example_lfs_request :: request where
  "example_lfs_request = lfs_options ''Bearer abc'' ''bitbucket.example.com'' ''TEAM'' ''svc''"

section \<open>Properties\<close>

subsection \<open>Auxiliary facts\<close>

lemma bindE_simps:
  "bindE (Inl x) f = Inl x"
  "bindE (Inr y) f = f y"
  by (simp_all add: bindE_def)

lemmas io_defs = bindIO_def liftE_def throwIO_def returnIO_def emit_def catchIO_def fetchIO_def
  initRepoAndPushIO_def gitIO_def

lemma mapE_Inr:
  "(\<And>x. x \<in> set xs \<Longrightarrow> f x = Inr (g x)) \<Longrightarrow> mapE f xs = Inr (map g xs)"
  by (induction xs) (simp_all add: bindE_simps)

lemma indexed_elements_JArr: "indexed_elements (JArr rs) = Inr rs"
proof -
  have "mapE (getIndex (JArr rs)) [0 ..< length rs] = Inr (map (\<lambda>i. rs ! i) [0 ..< length rs])"
    by (rule mapE_Inr) simp
  then show ?thesis
    by (simp add: indexed_elements_def ToNumber_def indices_below_def bindE_simps map_nth)
qed

lemma required_loop_eq:
  "required_loop rs revs ru =
     bindE (mapE (\<lambda>r. getProp r ''name'') rs) (\<lambda>ns. Inr (ru @ ns, revs @ map User ns))"
proof (induction rs arbitrary: revs ru)
  case Nil
  show ?case by (simp add: bindE_simps)
next
  case (Cons r rs)
  show ?case
  proof (cases "getProp r ''name''")
    case (Inl x)
    then show ?thesis by (simp add: bindE_simps)
  next
    case (Inr n)
    then show ?thesis
      by (cases "mapE (\<lambda>r. getProp r ''name'') rs") (simp_all add: bindE_simps Cons.IH)
  qed
qed

lemma requested_loop_eq:
  "requested_loop users ru revs =
     revs @ map (\<lambda>u. User (JStr u)) (filter (\<lambda>u. JStr u \<notin> set ru) users)"
  by (induction users arbitrary: revs) simp_all

lemma getReviewers_JArr:
  "getReviewers users (JArr rs) =
     bindE (mapE (\<lambda>r. getProp r ''name'') rs) (\<lambda>ns.
       Inr (map User ns @ map (\<lambda>u. User (JStr u)) (filter (\<lambda>u. JStr u \<notin> set ns) users)))"
  by (cases "mapE (\<lambda>r. getProp r ''name'') rs")
     (simp_all add: getReviewers_def indexed_elements_JArr required_loop_eq requested_loop_eq
        bindE_simps)

lemma clone_loop_objects:
  "clone_loop (map JObj ls) u =
     Inr (case filter (\<lambda>kv. own_property kv ''name'' = JStr ''http'') ls of
            [] \<Rightarrow> u
          | h # hs \<Rightarrow> own_property (last (h # hs)) ''href'')"
proof (induction ls arbitrary: u)
  case Nil
  show ?case by simp
next
  case (Cons kv ls)
  show ?case
    by (cases "filter (\<lambda>kv. own_property kv ''name'' = JStr ''http'') ls")
       (simp_all add: bindE_simps Cons.IH)
qed

lemma http_clone_url_objects:
  assumes "own_property kvs ''links'' = JObj lk"
    and "own_property lk ''clone'' = JArr (map JObj ls)"
  shows "http_clone_url (JObj kvs) = Inr (http_href ls)"
  using assms by (simp add: http_clone_url_def bindE_simps clone_loop_objects http_href_def)

lemma self_href_objects:
  assumes "own_property kvs ''links'' = JObj lk"
    and "own_property lk ''self'' = JArr (JObj s0 # rest)"
  shows "self_href (JObj kvs) = Inr (own_property s0 ''href'')"
  using assms by (simp add: self_href_def bindE_simps)

lemma getRepoInfo_response:
  assumes "fetch e tr (get_options a (base @ ''/projects/'' @ proj @ ''/repos/'' @ rep)) = Inr response"
  shows "getRepoInfo e proj rep a base tr =
     (if status response \<noteq> 200
      then Inl (Error (''Unable to get repository details, '' @ decimal (status response)
                 @ '' '' @ statusText response @ '', '' @ bodyText response))
      else bindE (json response) (\<lambda>r.
            bindE (getProp r ''id'') (\<lambda>i.
            bindE (http_clone_url r) (\<lambda>u.
            bindE (self_href r) (\<lambda>h.
            bindE (ToString h) (\<lambda>c.
              Inr \<lparr>remoteUrl = u, repoContentsUrl = c, repoId = i\<rparr>))))),
      tr @ [Fetch (get_options a (base @ ''/projects/'' @ proj @ ''/repos/'' @ rep))])"
  using assms by (cases "json response") (simp_all add: getRepoInfo_def io_defs bindE_simps)

lemma getRepositoryRemoteUrl_response:
  assumes "fetch e tr (get_options a (base @ ''/projects/'' @ proj @ ''/repos/'' @ rep)) = Inr response"
  shows "getRepositoryRemoteUrl e proj rep a base tr =
     (if status response \<noteq> 200
      then Inl (Error (''Unable to get repository details, '' @ decimal (status response)
                 @ '' '' @ statusText response @ '', '' @ bodyText response))
      else bindE (json response) http_clone_url,
      tr @ [Fetch (get_options a (base @ ''/projects/'' @ proj @ ''/repos/'' @ rep))])"
  using assms
  by (cases "json response") (simp_all add: getRepositoryRemoteUrl_def io_defs bindE_simps)


lemmas example_defs = example_env_def example_server_def example_repo_response_def
  example_reviewers_response_def example_repo_json_def example_config_def
  example_location_def example_request_options_def

lemma decimal_values:
  "decimal 200 = ''200''" "decimal 201 = ''201''" "decimal 404 = ''404''"
  "decimal 409 = ''409''" "decimal 500 = ''500''" "decimal 0 = ''0''"
  by (simp_all add: decimal.simps)


lemma createRepository_response:
  assumes "fetch e tr (create_options e proj rep base d v b a) = Inr response"
  shows "createRepository e proj rep d v b a base tr =
     (if status response = 409
      then getRepoInfo e proj rep a base
             (tr @ [Fetch (create_options e proj rep base d v b a),
                    LogInfo (''A repository with name('' @ rep @ '') already exists.'')])
      else if status response \<noteq> 201
      then (Inl (Error (''Unable to create repository, '' @ decimal (status response)
                   @ '' '' @ statusText response @ '', '' @ bodyText response)),
            tr @ [Fetch (create_options e proj rep base d v b a)])
      else (bindE (json response) (\<lambda>r.
              bindE (getProp r ''id'') (\<lambda>i.
              bindE (http_clone_url r) (\<lambda>u.
              bindE (self_href r) (\<lambda>h.
              bindE (ToString h) (\<lambda>c.
                Inr \<lparr>remoteUrl = u, repoContentsUrl = c, repoId = i\<rparr>))))),
            tr @ [Fetch (create_options e proj rep base d v b a)]))"
  using assms by (cases "json response") (simp_all add: createRepository_def io_defs bindE_simps)

lemma createPullRequest_steps:
  assumes "getRepoInfo e proj rep a base tr = (Inr info, tr1)"
    and "getRequiredReviewers e proj rep (repoId info) (''refs/heads/'' @ src) (repoId info)
           (''refs/heads/'' @ tgt) a base tr1 = (Inr rr, tr2)"
  shows "createPullRequest e ttl dsc proj rep src tgt ro a base tr =
     (case reviewersObject_of (default_to [] ro) rr of
        Inl x \<Rightarrow> (Inl x, tr2)
      | Inr robj \<Rightarrow>
         (case fetch e tr2 (pull_request_options e ttl dsc robj proj rep src tgt a base) of
            Inl x \<Rightarrow> Inl (Error (''Unable to create pull request, '' @ error_toString e x))
          | Inr response \<Rightarrow>
             if status response \<noteq> 201
             then Inl (Error (''Unable to create pull request, '' @ decimal (status response)
                    @ '' '' @ statusText response @ '', '' @ bodyText response))
             else bindE (json response) (read_pull_request e),
          tr2 @ [Fetch (pull_request_options e ttl dsc robj proj rep src tgt a base)]))"
  using assms
  by (simp add: createPullRequest_def io_defs bindE_def Let_def split: sum.splits)







lemma getRequiredReviewers_response:
  assumes "convertible sid" and "convertible tid"
    and "fetch e tr (get_options a
             (replace_first ''api'' ''default-reviewers'' base
                @ ''/projects/'' @ pk @ ''/repos/'' @ rs @ ''/reviewers''
                @ ''?'' @ URLSearchParams e
                    [(''sourceRepoId'', toString sid), (''sourceRefId'', sref),
                     (''targetRepoId'', toString tid), (''targetRefId'', tref)])) = Inr response"
  shows "getRequiredReviewers e pk rs sid sref tid tref a base tr =
     (if status response \<noteq> 200
      then Inl (Error (''Unable to get default reviewers, '' @ decimal (status response)
                 @ '' '' @ statusText response @ '', '' @ bodyText response))
      else json response,
      tr @ [Fetch (get_options a
             (replace_first ''api'' ''default-reviewers'' base
                @ ''/projects/'' @ pk @ ''/repos/'' @ rs @ ''/reviewers''
                @ ''?'' @ URLSearchParams e
                    [(''sourceRepoId'', toString sid), (''sourceRefId'', sref),
                     (''targetRepoId'', toString tid), (''targetRefId'', tref)]))])"
  using assms by (simp add: getRequiredReviewers_def ToString_def io_defs)

lemma example_getRepoInfo:
  "getRepoInfo (example_env example_location (example_server post put))
      ''TEAM'' ''svc'' ''Bearer abc'' ''https://bitbucket.example.com/rest/api/1.0'' tr =
     (Inr example_info, tr @ [Fetch example_lookup_request])"
proof -
  let ?e = "example_env example_location (example_server post put)"
  have g: "fetch ?e tr (get_options ''Bearer abc''
      (''https://bitbucket.example.com/rest/api/1.0'' @ ''/projects/'' @ ''TEAM'' @ ''/repos/'' @ ''svc''))
      = Inr example_repo_response"
    by (simp add: example_defs get_options_def)
  show ?thesis
    by (simp add: getRepoInfo_response [OF g] example_repo_response_def example_repo_json_def
          bindE_simps http_clone_url_def self_href_def own_property_def example_info_def
          example_lookup_request_def ToString_def)
qed

lemma example_getRequiredReviewers:
  "getRequiredReviewers (example_env example_location (example_server post put))
      ''TEAM'' ''svc'' (JNum 42) sref (JNum 42) tref ''Bearer abc''
      ''https://bitbucket.example.com/rest/api/1.0'' tr =
     (Inr (JArr [JObj [(''name'', JStr ''alice''), (''id'', JNum 7)],
                 JObj [(''name'', JStr ''bob''), (''id'', JNum 8)]]),
      tr @ [Fetch example_reviewers_request])"
  by (simp add: getRequiredReviewers_def ToString_def io_defs example_defs get_options_def
        example_reviewers_request_def)



lemma fetches_append [simp]: "fetches (xs @ ys) = fetches xs @ fetches ys"
  by (simp add: fetches_def)

lemma fetches_simps [simp]:
  "fetches [] = []"
  "fetches (Fetch r # tr) = r # fetches tr"
  "fetches (LogInfo s # tr) = fetches tr"
  "fetches (Output k v # tr) = fetches tr"
  "fetches (InitRepoAndPush a # tr) = fetches tr"
  "fetches (Git c # tr) = fetches tr"
  by (simp_all add: fetches_def)

lemma push_calls_simps [simp]:
  "push_calls [] = []"
  "push_calls (Fetch r # tr) = push_calls tr"
  "push_calls (LogInfo s # tr) = push_calls tr"
  "push_calls (Output k v # tr) = push_calls tr"
  "push_calls (InitRepoAndPush a # tr) = a # push_calls tr"
  "push_calls (Git c # tr) = push_calls tr"
  by (simp_all add: push_calls_def)

lemma push_calls_append [simp]: "push_calls (xs @ ys) = push_calls xs @ push_calls ys"
  by (simp add: push_calls_def)

lemma getRepoInfo_trace:
  "snd (getRepoInfo e p r a b tr) =
     tr @ [Fetch (get_options a (b @ ''/projects/'' @ p @ ''/repos/'' @ r))]"
  by (simp add: getRepoInfo_def io_defs split: sum.splits prod.splits)

lemma createRepository_fetches:
  "\<forall>req \<in> set (fetches (snd (createRepository e p r d v b a base []))).
     httpMethod req \<noteq> ''PUT''"
proof -
  have "snd (createRepository e p r d v b a base []) =
          [Fetch (create_options e p r base d v b a)]
      \<or> snd (createRepository e p r d v b a base []) =
          [Fetch (create_options e p r base d v b a),
           LogInfo (''A repository with name('' @ r @ '') already exists.''),
           Fetch (get_options a (base @ ''/projects/'' @ p @ ''/repos/'' @ r))]"
    using getRepoInfo_trace [of e p r a base
        "[Fetch (create_options e p r base d v b a),
          LogInfo (''A repository with name('' @ r @ '') already exists.'')]"]
    by (auto simp: createRepository_def io_defs split: sum.splits prod.splits)
  then show ?thesis
    by (auto simp: create_options_def get_options_def)
qed

lemma handler_prelude_missing_project:
  assumes "parseRepoUrl e u = Inr loc" and "falsy (project loc)"
  shows "handler_prelude e u tok =
     Inl (InputError (''Invalid URL provider was included in the repo URL to create ''
            @ u @ '', missing project''))"
  using assms by (simp add: handler_prelude_def bindE_simps falsy_def)

lemma handler_prelude_Inr:
  assumes "handler_prelude e u tok = Inr t"
  shows "\<exists>loc cfg. parseRepoUrl e u = Inr loc \<and> truthy (project loc) = Some (target_project t)
     \<and> byHost e (host loc) = Some cfg \<and> integrationConfig t = cfg
     \<and> authConfig t = cfg\<lparr>token := nullish tok (token cfg)\<rparr>
     \<and> truthy (getBitbucketServerRequestOptions e (authConfig t)) = Some (target_authorization t)
     \<and> target_repo t = repo loc \<and> target_host t = host loc"
  using assms
  by (auto simp: handler_prelude_def bindE_def Let_def split: sum.splits option.splits)

lemma publish_push_handler_push_calls:
  "\<forall>a \<in> set (push_calls (snd (publish_push_handler e inp ws []))).
     \<exists>t. handler_prelude e (repoUrl inp) (inputToken inp) = Inr t
       \<and> push_auth a = git_auth (authConfig t)
       \<and> defaultBranch a = default_to ''backstage/update'' (targetBranch inp)
       \<and> or_config e (Some (default_to ''commit by backstage'' (gitCommitMessage inp)))
            ''scaffolder.defaultCommitMessage'' = Inr (commitMessage a)"
  by (auto simp: publish_push_handler_def io_defs Let_def getRepositoryRemoteUrl_def
      split: sum.splits prod.splits if_splits)

lemma publish_push_handler_success:
  "fst (publish_push_handler e inp ws []) = Inr () \<Longrightarrow>
     length (push_calls (snd (publish_push_handler e inp ws []))) = 1"
  by (auto simp: publish_push_handler_def io_defs Let_def getRepositoryRemoteUrl_def
      split: sum.splits prod.splits if_splits)

lemma branch_push_handler_push_calls:
  "\<forall>a \<in> set (push_calls (snd (branch_push_handler e inp ws []))).
     \<exists>t. handler_prelude e (repoUrl inp) (inputToken inp) = Inr t
       \<and> push_auth a = git_auth (authConfig t)
       \<and> defaultBranch a = branch inp
       \<and> or_config e (Some (default_to ''init commit by backstage'' (gitCommitMessage inp)))
            ''scaffolder.defaultCommitMessage'' = Inr (commitMessage a)"
  by (auto simp: branch_push_handler_def io_defs Let_def getRepoInfo_def
      split: sum.splits prod.splits if_splits)

lemma branch_push_handler_success:
  "fst (branch_push_handler e inp ws []) = Inr () \<Longrightarrow>
     length (push_calls (snd (branch_push_handler e inp ws []))) = 1"
  by (auto simp: branch_push_handler_def io_defs Let_def getRepoInfo_def
      split: sum.splits prod.splits if_splits)

lemma example_handler_prelude:
  "handler_prelude (example_env example_location server) u tok = Inr (example_target tok)"
  by (cases tok)
     (simp_all add: handler_prelude_def bindE_simps example_env_def example_location_def
        example_config_def example_request_options_def example_target_def truthy_def
        nullish_def Let_def)

lemma example_createRepository_conflict:
  "createRepository (example_env example_location (example_server conflict_response put))
      ''TEAM'' ''svc'' None Private ''master'' ''Bearer abc''
      ''https://bitbucket.example.com/rest/api/1.0'' [] =
     (Inr example_info,
      [Fetch (example_create_request
                (example_env example_location (example_server conflict_response put))),
       LogInfo ''A repository with name(svc) already exists.'',
       Fetch example_lookup_request])"
proof -
  let ?e = "example_env example_location (example_server conflict_response put)"
  have f: "fetch ?e [] (create_options ?e ''TEAM'' ''svc''
      ''https://bitbucket.example.com/rest/api/1.0'' None Private ''master'' ''Bearer abc'')
      = Inr conflict_response"
    by (simp add: example_defs create_options_def)
  have st: "status conflict_response = 409"
    by (simp add: conflict_response_def)
  show ?thesis
    by (simp add: createRepository_response [OF f] st example_getRepoInfo
          example_create_request_def)
qed

lemma example_publish_push:
  "publish_push_handler (example_env example_location (example_server post put))
      (example_push_input example_repoUrl tok) ''/workspace'' [] =
     (Inr (),
      [Fetch (get_options (target_authorization (example_target tok))
         ''https://bitbucket.example.com/rest/api/1.0/projects/TEAM/repos/svc''),
       InitRepoAndPush
         \<lparr>dir = ''/workspace'',
          push_remoteUrl = JStr ''https://bitbucket.example.com/scm/team/svc.git'',
          push_auth = git_auth (authConfig (example_target tok)),
          defaultBranch = ''backstage/update'',
          commitMessage = Some ''commit by backstage'',
          gitAuthorInfo = (None, None)\<rparr>,
       Output ''commitHash'' (JStr ''0a1b2c''),
       Output ''remoteUrl'' (JStr ''https://bitbucket.example.com/scm/team/svc.git'')])"
proof -
  let ?e = "example_env example_location (example_server post put)"
  have t: "target_project (example_target tok) = ''TEAM''"
      "target_repo (example_target tok) = ''svc''"
      "apiBaseUrl (integrationConfig (example_target tok)) =
         ''https://bitbucket.example.com/rest/api/1.0''"
    by (simp_all add: example_target_def example_config_def)
  have g: "fetch ?e [] (get_options (target_authorization (example_target tok))
      (''https://bitbucket.example.com/rest/api/1.0'' @ ''/projects/'' @ ''TEAM'' @ ''/repos/'' @ ''svc''))
      = Inr example_repo_response"
    by (simp add: example_defs get_options_def)
  have u: "getRepositoryRemoteUrl ?e ''TEAM'' ''svc'' (target_authorization (example_target tok))
      ''https://bitbucket.example.com/rest/api/1.0'' [] =
      (Inr (JStr ''https://bitbucket.example.com/scm/team/svc.git''),
       [Fetch (get_options (target_authorization (example_target tok))
         ''https://bitbucket.example.com/rest/api/1.0/projects/TEAM/repos/svc'')])"
    by (simp add: getRepositoryRemoteUrl_response [OF g] example_repo_response_def
          example_repo_json_def bindE_simps http_clone_url_def own_property_def)
  have c: "getOptionalString ?e k = Inr None" "getRepoSourceDirectory ?e w p = Inr w"
      "initRepoAndPush ?e tr args = Inr (Some ''0a1b2c'')" for k w p tr args
    by (simp_all add: example_env_def)
  show ?thesis
    by (simp add: publish_push_handler_def example_handler_prelude example_push_input_def
          io_defs t u c or_config_def truthy_def default_to_def output_string_def Let_def)
qed

lemma example_branch_push:
  "branch_push_handler (example_env example_location (example_server post put))
      (example_branch_push_input example_repoUrl) ''/workspace'' [] =
     (Inr (),
      [Fetch example_lookup_request,
       InitRepoAndPush
         \<lparr>dir = ''/workspace'',
          push_remoteUrl = JStr ''https://bitbucket.example.com/scm/team/svc.git'',
          push_auth = TokenAuth ''abc'',
          defaultBranch = ''feature/update'',
          commitMessage = Some ''init commit by backstage'',
          gitAuthorInfo = (None, None)\<rparr>,
       Output ''commitHash'' (JStr ''0a1b2c''),
       Output ''remoteUrl'' (JStr ''https://bitbucket.example.com/scm/team/svc.git'')])"
proof -
  let ?e = "example_env example_location (example_server post put)"
  have t: "target_project (example_target None) = ''TEAM''"
      "target_repo (example_target None) = ''svc''"
      "target_authorization (example_target None) = ''Bearer abc''"
      "apiBaseUrl (integrationConfig (example_target None)) =
         ''https://bitbucket.example.com/rest/api/1.0''"
      "git_auth (authConfig (example_target None)) = TokenAuth ''abc''"
    by (simp_all add: example_target_def example_config_def nullish_def truthy_def git_auth_def)
  have c: "getOptionalString ?e k = Inr None" "getRepoSourceDirectory ?e w p = Inr w"
      "initRepoAndPush ?e tr args = Inr (Some ''0a1b2c'')" for k w p tr args
    by (simp_all add: example_env_def)
  show ?thesis
    by (simp add: branch_push_handler_def example_handler_prelude example_branch_push_input_def
          io_defs t example_getRepoInfo c or_config_def truthy_def default_to_def
          output_string_def example_info_def Let_def)
qed

lemma example_push_input_fields:
  "repoUrl (example_push_input u tok) = u"
  "inputToken (example_push_input u tok) = tok"
  by (simp_all add: example_push_input_def)

subsection \<open>The reviewer merge\<close>

text \<open>
  Claim C1. For every array of required reviewers and every list of requested user
  names, \<open>getReviewers\<close> returns the required reviewers first, in the order of the
  server, followed by the requested user names that are not the name of a required
  reviewer, in the order of the caller. (It throws exactly when the \<open>name\<close> of some
  required reviewer cannot be read.) For the required reviewers alice and bob and the
  requested names bob and carol the result is alice, bob, carol, of length 3.
\<close>

theorem getReviewers_required_first:
  "getReviewers users (JArr rs) =
     bindE (mapE (\<lambda>r. getProp r ''name'') rs) (\<lambda>ns.
       Inr (map User ns @ map (\<lambda>u. User (JStr u)) (filter (\<lambda>u. JStr u \<notin> set ns) users)))
   \<and> getReviewers [''bob'', ''carol'']
        (JArr [JObj [(''name'', JStr ''alice'')], JObj [(''name'', JStr ''bob'')]]) =
       Inr [User (JStr ''alice''), User (JStr ''bob''), User (JStr ''carol'')]
   \<and> length [User (JStr ''alice''), User (JStr ''bob''), User (JStr ''carol'')] = 3"
  by (simp add: getReviewers_JArr bindE_simps own_property_def)


text \<open>
  Claim C2, as stated, fails: a user name that is requested twice and is not the name of
  a required reviewer appears twice in the result.
\<close>

theorem getReviewers_duplicate_counterexample:
  "getReviewers [''carol'', ''carol''] (JArr []) =
     Inr [User (JStr ''carol''), User (JStr ''carol'')]
   \<and> \<not> distinct (map name [User (JStr ''carol''), User (JStr ''carol'')])"
  by (simp add: getReviewers_JArr bindE_simps)


text \<open>
  Claim C2, amended. A requested user name that is the name of a required reviewer is
  never added, so the merged list has no two entries with the same user name exactly
  when the required reviewers have pairwise different names and the requested names
  that are not names of required reviewers are pairwise different.
\<close>

theorem getReviewers_distinct:
  assumes "mapE (\<lambda>r. getProp r ''name'') rs = Inr ns"
  shows "\<exists>us. getReviewers users (JArr rs) = Inr us
     \<and> (distinct (map name us) \<longleftrightarrow>
          distinct ns \<and> distinct (filter (\<lambda>u. JStr u \<notin> set ns) users))"
proof -
  let ?req = "filter (\<lambda>u. JStr u \<notin> set ns) users"
  have eq: "getReviewers users (JArr rs) = Inr (map User ns @ map (\<lambda>u. User (JStr u)) ?req)"
    by (simp add: getReviewers_JArr assms bindE_simps)
  have names: "map name (map User ns @ map (\<lambda>u. User (JStr u)) ?req) = ns @ map JStr ?req"
    by (simp add: comp_def)
  have inj: "distinct (map JStr ?req) \<longleftrightarrow> distinct ?req"
    by (simp add: distinct_map inj_on_def)
  have disj: "set ns \<inter> set (map JStr ?req) = {}"
    by auto
  have "distinct (ns @ map JStr ?req) \<longleftrightarrow> distinct ns \<and> distinct ?req"
    using inj disj by simp
  then have "distinct (map name (map User ns @ map (\<lambda>u. User (JStr u)) ?req))
      \<longleftrightarrow> distinct ns \<and> distinct ?req"
    by (simp only: names)
  with eq show ?thesis by blast
qed


theorem getReviewers_distinct_witness:
  "mapE (\<lambda>r. getProp r ''name'')
      [JObj [(''name'', JStr ''alice'')], JObj [(''name'', JStr ''bob'')]] =
     Inr [JStr ''alice'', JStr ''bob'']
   \<and> (\<exists>us. getReviewers [''bob'', ''carol'']
              (JArr [JObj [(''name'', JStr ''alice'')], JObj [(''name'', JStr ''bob'')]]) = Inr us
          \<and> distinct (map name us))"
proof -
  have h: "mapE (\<lambda>r. getProp r ''name'')
      [JObj [(''name'', JStr ''alice'')], JObj [(''name'', JStr ''bob'')]] =
     Inr [JStr ''alice'', JStr ''bob'']"
    by (simp add: bindE_simps own_property_def)
  from getReviewers_distinct [OF h, of "[''bob'', ''carol'']"] h
  show ?thesis by simp
qed

subsection \<open>Repository lookup\<close>

text \<open>
  Claim C6. When the lookup request is answered with a status other than 200,
  \<open>getRepoInfo\<close> (and likewise \<open>getRepositoryRemoteUrl\<close>) fails with an error whose
  message carries the status, the status text and the response body. When it is answered
  with status 200 and a repository object, \<open>remoteUrl\<close> is the \<open>href\<close> of the clone link
  named \<open>http\<close> (of the last one, should there be several) and the empty string when no
  clone link has that name, \<open>repoContentsUrl\<close> is the \<open>href\<close> of the first self link and
  \<open>repoId\<close> is the \<open>id\<close> field of the response. The \<open>href\<close> of the self link goes
  through a template literal: \<open>repoContentsUrl\<close> is its string, the \<open>href\<close> itself when
  that is a string, and the lookup throws the TypeError of the conversion when it has
  none, as for an object with a \<open>toString\<close> property.
\<close>

theorem getRepoInfo_result:
  assumes "fetch e tr (get_options a (base @ ''/projects/'' @ proj @ ''/repos/'' @ rep)) = Inr response"
  shows "(status response \<noteq> 200 \<longrightarrow>
            getRepoInfo e proj rep a base tr =
              (Inl (Error (''Unable to get repository details, '' @ decimal (status response)
                 @ '' '' @ statusText response @ '', '' @ bodyText response)),
               tr @ [Fetch (get_options a (base @ ''/projects/'' @ proj @ ''/repos/'' @ rep))])
          \<and> getRepositoryRemoteUrl e proj rep a base tr =
              (Inl (Error (''Unable to get repository details, '' @ decimal (status response)
                 @ '' '' @ statusText response @ '', '' @ bodyText response)),
               tr @ [Fetch (get_options a (base @ ''/projects/'' @ proj @ ''/repos/'' @ rep))]))
       \<and> (status response = 200 \<and> json response = Inr (JObj kvs)
            \<and> own_property kvs ''links'' = JObj lk
            \<and> own_property lk ''clone'' = JArr (map JObj ls)
            \<and> own_property lk ''self'' = JArr (JObj s0 # rest) \<longrightarrow>
            getRepoInfo e proj rep a base tr =
              (if convertible (own_property s0 ''href'')
               then Inr \<lparr>remoteUrl = http_href ls,
                         repoContentsUrl = toString (own_property s0 ''href''),
                         repoId = own_property kvs ''id''\<rparr>
               else Inl (TypeError CannotConvertToPrimitive),
               tr @ [Fetch (get_options a (base @ ''/projects/'' @ proj @ ''/repos/'' @ rep))])
          \<and> getRepositoryRemoteUrl e proj rep a base tr =
              (Inr (http_href ls),
               tr @ [Fetch (get_options a (base @ ''/projects/'' @ proj @ ''/repos/'' @ rep))]))
       \<and> (status response = 200 \<and> json response = Inr (JObj kvs)
            \<and> own_property kvs ''links'' = JObj lk
            \<and> own_property lk ''clone'' = JArr (map JObj ls)
            \<and> own_property lk ''self'' = JArr (JObj s0 # rest)
            \<and> own_property s0 ''href'' = JStr h \<longrightarrow>
            getRepoInfo e proj rep a base tr =
              (Inr \<lparr>remoteUrl = http_href ls, repoContentsUrl = h,
                    repoId = own_property kvs ''id''\<rparr>,
               tr @ [Fetch (get_options a (base @ ''/projects/'' @ proj @ ''/repos/'' @ rep))]))
       \<and> (status response = 200 \<and> json response = Inr (JObj kvs)
            \<and> own_property kvs ''links'' = JObj lk
            \<and> own_property lk ''clone'' = JArr (map JObj ls)
            \<and> own_property lk ''self'' = JArr (JObj s0 # rest)
            \<and> own_property s0 ''href'' = JObj hs \<and> ''toString'' \<in> fst ` set hs \<longrightarrow>
            getRepoInfo e proj rep a base tr =
              (Inl (TypeError CannotConvertToPrimitive),
               tr @ [Fetch (get_options a (base @ ''/projects/'' @ proj @ ''/repos/'' @ rep))]))"
  by (simp add: getRepoInfo_response [OF assms] getRepositoryRemoteUrl_response [OF assms]
        bindE_simps http_clone_url_objects self_href_objects ToString_def)


theorem getRepoInfo_result_witness:
  "getRepoInfo (example_env example_location (example_server conflict_response conflict_response))
      ''TEAM'' ''svc'' ''Bearer abc'' ''https://bitbucket.example.com/rest/api/1.0'' [] =
     (Inr \<lparr>remoteUrl = JStr ''https://bitbucket.example.com/scm/team/svc.git'',
           repoContentsUrl = ''https://bitbucket.example.com/projects/TEAM/repos/svc/browse'',
           repoId = JNum 42\<rparr>,
      [Fetch (get_options ''Bearer abc''
         ''https://bitbucket.example.com/rest/api/1.0/projects/TEAM/repos/svc'')])
   \<and> getRepoInfo (example_env example_location (\<lambda>tr req. Inr not_found_response))
      ''TEAM'' ''svc'' ''Bearer abc'' ''https://bitbucket.example.com/rest/api/1.0'' [] =
     (Inl (Error ''Unable to get repository details, 404 Not Found, none''),
      [Fetch (get_options ''Bearer abc''
         ''https://bitbucket.example.com/rest/api/1.0/projects/TEAM/repos/svc'')])"
proof -
  let ?e = "example_env example_location (example_server conflict_response conflict_response)"
  let ?e' = "example_env example_location (\<lambda>tr req. Inr not_found_response)"
  let ?links = "[(''clone'', JArr (map JObj
                 [[(''href'', JStr ''ssh://git@bitbucket.example.com/team/svc.git''),
                        (''name'', JStr ''ssh'')],
                  [(''href'', JStr ''https://bitbucket.example.com/scm/team/svc.git''),
                        (''name'', JStr ''http'')]])),
               (''self'', JArr
                 [JObj [(''href'',
                    JStr ''https://bitbucket.example.com/projects/TEAM/repos/svc/browse'')]])]"
  have f: "fetch ?e [] (get_options ''Bearer abc''
      (''https://bitbucket.example.com/rest/api/1.0'' @ ''/projects/'' @ ''TEAM'' @ ''/repos/'' @ ''svc''))
      = Inr example_repo_response"
    by (simp add: example_defs get_options_def)
  have f': "fetch ?e' [] (get_options ''Bearer abc''
      (''https://bitbucket.example.com/rest/api/1.0'' @ ''/projects/'' @ ''TEAM'' @ ''/repos/'' @ ''svc''))
      = Inr not_found_response"
    by (simp add: example_defs)
  from getRepoInfo_result [OF f, of "[(''slug'', JStr ''svc''), (''id'', JNum 42), (''links'', JObj ?links)]"
      ?links "[[(''href'', JStr ''ssh://git@bitbucket.example.com/team/svc.git''),
                        (''name'', JStr ''ssh'')],
                  [(''href'', JStr ''https://bitbucket.example.com/scm/team/svc.git''),
                        (''name'', JStr ''http'')]]"
      "[(''href'', JStr ''https://bitbucket.example.com/projects/TEAM/repos/svc/browse'')]" "[]"]
    getRepoInfo_result [OF f']
  show ?thesis
    by (simp add: example_repo_response_def example_repo_json_def not_found_response_def
          own_property_def http_href_def decimal_values)
qed

subsection \<open>Repository creation\<close>

text \<open>
  Claim C3. When the create request is answered with status 409, \<open>createRepository\<close>
  does not fail on that account: it logs the conflict and returns whatever the lookup
  \<open>getRepoInfo\<close> returns when called next, so the record of a repository that already
  exists is the record of a direct lookup. When the create request is answered with a
  status other than 201 and 409, \<open>createRepository\<close> fails with an error whose message
  carries the status, the status text and the response body.
\<close>

theorem createRepository_conflict_reuses_lookup:
  assumes "fetch e tr (create_options e proj rep base d v b a) = Inr response"
  shows "(status response = 409 \<longrightarrow>
            createRepository e proj rep d v b a base tr =
              getRepoInfo e proj rep a base
                (tr @ [Fetch (create_options e proj rep base d v b a),
                       LogInfo (''A repository with name('' @ rep @ '') already exists.'')]))
       \<and> (status response \<noteq> 201 \<and> status response \<noteq> 409 \<longrightarrow>
            createRepository e proj rep d v b a base tr =
              (Inl (Error (''Unable to create repository, '' @ decimal (status response)
                      @ '' '' @ statusText response @ '', '' @ bodyText response)),
               tr @ [Fetch (create_options e proj rep base d v b a)]))"
  by (simp add: createRepository_response [OF assms])

theorem createRepository_conflict_reuses_lookup_witness:
  "createRepository
      (example_env example_location (example_server conflict_response no_content_response))
      ''TEAM'' ''svc'' None Private ''master'' ''Bearer abc''
      ''https://bitbucket.example.com/rest/api/1.0'' [] =
     getRepoInfo
      (example_env example_location (example_server conflict_response no_content_response))
      ''TEAM'' ''svc'' ''Bearer abc'' ''https://bitbucket.example.com/rest/api/1.0''
      [Fetch (create_options
           (example_env example_location (example_server conflict_response no_content_response))
           ''TEAM'' ''svc'' ''https://bitbucket.example.com/rest/api/1.0'' None Private
           ''master'' ''Bearer abc''),
       LogInfo ''A repository with name(svc) already exists.'']
   \<and> fst (createRepository
      (example_env example_location (example_server conflict_response no_content_response))
      ''TEAM'' ''svc'' None Private ''master'' ''Bearer abc''
      ''https://bitbucket.example.com/rest/api/1.0'' []) =
     Inr \<lparr>remoteUrl = JStr ''https://bitbucket.example.com/scm/team/svc.git'',
          repoContentsUrl = ''https://bitbucket.example.com/projects/TEAM/repos/svc/browse'',
          repoId = JNum 42\<rparr>
   \<and> fst (createRepository
      (example_env example_location (example_server server_error_response no_content_response))
      ''TEAM'' ''svc'' None Private ''master'' ''Bearer abc''
      ''https://bitbucket.example.com/rest/api/1.0'' []) =
     Inl (Error ''Unable to create repository, 500 Internal Server Error, boom'')"
proof -
  let ?e = "example_env example_location (example_server conflict_response no_content_response)"
  let ?e' = "example_env example_location (example_server server_error_response no_content_response)"
  let ?base = "''https://bitbucket.example.com/rest/api/1.0''"
  have f: "fetch ?e [] (create_options ?e ''TEAM'' ''svc'' ?base None Private ''master'' ''Bearer abc'')
      = Inr conflict_response"
    by (simp add: example_defs create_options_def)
  have f': "fetch ?e' [] (create_options ?e' ''TEAM'' ''svc'' ?base None Private ''master'' ''Bearer abc'')
      = Inr server_error_response"
    by (simp add: example_defs create_options_def)
  have g: "fetch ?e tr (get_options ''Bearer abc'' (?base @ ''/projects/'' @ ''TEAM'' @ ''/repos/'' @ ''svc''))
      = Inr example_repo_response" for tr
    by (simp add: example_defs get_options_def)
  have look: "fst (getRepoInfo ?e ''TEAM'' ''svc'' ''Bearer abc'' ?base tr) =
     Inr \<lparr>remoteUrl = JStr ''https://bitbucket.example.com/scm/team/svc.git'',
          repoContentsUrl = ''https://bitbucket.example.com/projects/TEAM/repos/svc/browse'',
          repoId = JNum 42\<rparr>" for tr
    by (simp add: getRepoInfo_response [OF g] example_repo_response_def example_repo_json_def
          bindE_simps http_clone_url_def self_href_def own_property_def ToString_def)
  from createRepository_conflict_reuses_lookup [OF f]
    createRepository_conflict_reuses_lookup [OF f'] look
  show ?thesis
    by (simp add: conflict_response_def server_error_response_def decimal_values)
qed

text \<open>
  Claim C5. In the repository creation action, when the \<open>enableLFS\<close> input is true and
  the repository has been created (or found), a response to the LFS request whose status
  is not in the range 200 to 299 makes the whole action fail with an error; the LFS
  request is the last thing the action does, so nothing is rolled back and no output is
  reported. When \<open>enableLFS\<close> is false or missing the action reports its outputs and
  sends no PUT request at all.
\<close>

theorem repo_create_handler_lfs:
  assumes "handler_prelude e (repoUrl inp) (inputToken inp) = Inr t"
    and "createRepository e (target_project t) (target_repo t) (description inp)
           (default_to Private (repoVisibility inp)) (default_to ''master'' (inputDefaultBranch inp))
           (target_authorization t) (apiBaseUrl (integrationConfig t)) [] = (Inr info, tr1)"
  shows "(enableLFS inp = Some True
            \<and> fetch e tr1 (lfs_options (target_authorization t) (target_host t)
                 (target_project t) (target_repo t)) = Inr response
            \<and> \<not> ok response \<longrightarrow>
            repo_create_handler e inp [] =
              (Inl (Error (''Failed to enable LFS in the repository, ''
                      @ decimal (status response) @ '': '' @ statusText response)),
               tr1 @ [Fetch (lfs_options (target_authorization t) (target_host t)
                        (target_project t) (target_repo t))]))
       \<and> (enableLFS inp \<noteq> Some True \<longrightarrow>
            repo_create_handler e inp [] =
              (Inr (), tr1 @ [Output ''remoteUrl'' (remoteUrl info),
                              Output ''repoContentsUrl'' (JStr (repoContentsUrl info)),
                              Output ''repoId'' (repoId info)])
            \<and> (\<forall>req \<in> set (fetches (snd (repo_create_handler e inp []))).
                  httpMethod req \<noteq> ''PUT''))"
proof -
  have lfs: "repo_create_handler e inp [] =
      (Inl (Error (''Failed to enable LFS in the repository, ''
                      @ decimal (status response) @ '': '' @ statusText response)),
               tr1 @ [Fetch (lfs_options (target_authorization t) (target_host t)
                        (target_project t) (target_repo t))])"
    if "enableLFS inp = Some True"
      "fetch e tr1 (lfs_options (target_authorization t) (target_host t)
                 (target_project t) (target_repo t)) = Inr response"
      "\<not> ok response"
    using that assms
    by (simp add: repo_create_handler_def performEnableLFS_def io_defs default_to_def)
  have off: "repo_create_handler e inp [] =
              (Inr (), tr1 @ [Output ''remoteUrl'' (remoteUrl info),
                              Output ''repoContentsUrl'' (JStr (repoContentsUrl info)),
                              Output ''repoId'' (repoId info)])"
    if "enableLFS inp \<noteq> Some True"
  proof -
    from that have "default_to False (enableLFS inp) = False"
      by (cases "enableLFS inp") (simp_all add: default_to_def)
    with assms show ?thesis
      by (simp add: repo_create_handler_def io_defs)
  qed
  have tr1: "tr1 = snd (createRepository e (target_project t) (target_repo t) (description inp)
           (default_to Private (repoVisibility inp)) (default_to ''master'' (inputDefaultBranch inp))
           (target_authorization t) (apiBaseUrl (integrationConfig t)) [])"
    using assms(2) by simp
  have none: "\<forall>req \<in> set (fetches (snd (repo_create_handler e inp []))). httpMethod req \<noteq> ''PUT''"
    if "enableLFS inp \<noteq> Some True"
    using off [OF that] createRepository_fetches [of e "target_project t" "target_repo t"
        "description inp" "default_to Private (repoVisibility inp)"
        "default_to ''master'' (inputDefaultBranch inp)" "target_authorization t"
        "apiBaseUrl (integrationConfig t)"]
    by (simp add: tr1 [symmetric])
  from lfs off none show ?thesis by blast
qed

theorem repo_create_handler_lfs_witness:
  "repo_create_handler
      (example_env example_location (example_server conflict_response server_error_response))
      (example_create_input example_repoUrl (Some True)) [] =
     (Inl (Error ''Failed to enable LFS in the repository, 500: Internal Server Error''),
      [Fetch (example_create_request
                (example_env example_location
                   (example_server conflict_response server_error_response))),
       LogInfo ''A repository with name(svc) already exists.'',
       Fetch example_lookup_request,
       Fetch example_lfs_request])
   \<and> repo_create_handler
      (example_env example_location (example_server conflict_response server_error_response))
      (example_create_input example_repoUrl None) [] =
     (Inr (),
      [Fetch (example_create_request
                (example_env example_location
                   (example_server conflict_response server_error_response))),
       LogInfo ''A repository with name(svc) already exists.'',
       Fetch example_lookup_request,
       Output ''remoteUrl'' (JStr ''https://bitbucket.example.com/scm/team/svc.git''),
       Output ''repoContentsUrl''
         (JStr ''https://bitbucket.example.com/projects/TEAM/repos/svc/browse''),
       Output ''repoId'' (JNum 42)])"
proof -
  let ?e = "example_env example_location (example_server conflict_response server_error_response)"
  let ?on = "example_create_input example_repoUrl (Some True)"
  let ?off = "example_create_input example_repoUrl None"
  let ?tr1 = "[Fetch (example_create_request ?e),
       LogInfo ''A repository with name(svc) already exists.'',
       Fetch example_lookup_request]"
  have t: "target_project (example_target None) = ''TEAM''"
      "target_repo (example_target None) = ''svc''"
      "target_host (example_target None) = ''bitbucket.example.com''"
      "target_authorization (example_target None) = ''Bearer abc''"
      "apiBaseUrl (integrationConfig (example_target None)) =
         ''https://bitbucket.example.com/rest/api/1.0''"
    by (simp_all add: example_target_def example_config_def nullish_def truthy_def)
  have p_on: "handler_prelude ?e (repoUrl ?on) (inputToken ?on) = Inr (example_target None)"
    by (simp add: example_handler_prelude example_create_input_def)
  have p_off: "handler_prelude ?e (repoUrl ?off) (inputToken ?off) = Inr (example_target None)"
    by (simp add: example_handler_prelude example_create_input_def)
  have c_on: "createRepository ?e (target_project (example_target None))
      (target_repo (example_target None)) (description ?on)
      (default_to Private (repoVisibility ?on)) (default_to ''master'' (inputDefaultBranch ?on))
      (target_authorization (example_target None))
      (apiBaseUrl (integrationConfig (example_target None))) [] = (Inr example_info, ?tr1)"
    by (simp add: t example_create_input_def default_to_def example_createRepository_conflict)
  have c_off: "createRepository ?e (target_project (example_target None))
      (target_repo (example_target None)) (description ?off)
      (default_to Private (repoVisibility ?off)) (default_to ''master'' (inputDefaultBranch ?off))
      (target_authorization (example_target None))
      (apiBaseUrl (integrationConfig (example_target None))) [] = (Inr example_info, ?tr1)"
    by (simp add: t example_create_input_def default_to_def example_createRepository_conflict)
  have f: "fetch ?e ?tr1 (lfs_options (target_authorization (example_target None))
      (target_host (example_target None)) (target_project (example_target None))
      (target_repo (example_target None))) = Inr server_error_response"
    by (simp add: t example_defs lfs_options_def)
  have n: "\<not> ok server_error_response"
    by (simp add: ok_def server_error_response_def)
  from repo_create_handler_lfs [OF p_on c_on, of server_error_response] f n
  have 1: "repo_create_handler ?e ?on [] =
     (Inl (Error ''Failed to enable LFS in the repository, 500: Internal Server Error''),
      ?tr1 @ [Fetch example_lfs_request])"
    by (simp add: t example_create_input_def server_error_response_def decimal_values
          example_lfs_request_def)
  from repo_create_handler_lfs [OF p_off c_off]
  have 2: "repo_create_handler ?e ?off [] =
     (Inr (), ?tr1 @ [Output ''remoteUrl'' (remoteUrl example_info),
                       Output ''repoContentsUrl'' (JStr (repoContentsUrl example_info)),
                       Output ''repoId'' (repoId example_info)])"
    by (simp add: example_create_input_def)
  from 1 2 show ?thesis
    by (simp add: example_info_def)
qed

subsection \<open>Pull request creation\<close>




text \<open>
  Claim C9. The \<open>reviewers\<close> parameter of \<open>createPullRequest\<close> defaults to the empty
  list, and the branch that would submit the required reviewers as they came is never
  taken. Whatever the server sent as required reviewers, and also when no reviewers were
  requested: when \<open>getReviewers\<close> returns a list for the requested and the fetched
  required reviewers, the request that is posted next has the body
  \<open>{ title, description, reviewers, fromRef, toRef }\<close> in which \<open>reviewers\<close> is exactly
  that list, one \<open>{ user: { name } }\<close> for each entry; when \<open>getReviewers\<close> throws,
  \<open>createPullRequest\<close> throws the same and posts nothing. In particular, when the server
  sent an array of reviewers, the posted \<open>reviewers\<close> are all of their names, in the
  server's order, followed by the requested names that are not among them.
\<close>

theorem createPullRequest_submits_merged_reviewers:
  assumes "getRepoInfo e proj rep a base tr = (Inr info, tr1)"
    and "getRequiredReviewers e proj rep (repoId info) (''refs/heads/'' @ src) (repoId info)
           (''refs/heads/'' @ tgt) a base tr1 = (Inr rr, tr2)"
  shows "let requested = (case ro of None \<Rightarrow> [] | Some xs \<Rightarrow> xs);
             post = (\<lambda>names. Fetch
               \<lparr>url = base @ ''/projects/'' @ proj @ ''/repos/'' @ rep @ ''/pull-requests'',
                httpMethod = ''POST'',
                authorization = a,
                contentType = Some ''application/json'',
                body = Some (JSON_stringify e (JObj
                  [(''title'', JStr ttl),
                   (''description'', JStr dsc),
                   (''reviewers'',
                      JArr (map (\<lambda>n. JObj [(''user'', JObj [(''name'', n)])]) names)),
                   (''fromRef'', JObj
                      [(''repository'', JObj [(''slug'', JStr rep),
                                              (''project'', JObj [(''key'', JStr proj)])]),
                       (''id'', JStr (''refs/heads/'' @ src)),
                       (''type'', JStr ''BRANCH'')]),
                   (''toRef'', JObj
                      [(''repository'', JObj [(''slug'', JStr rep),
                                              (''project'', JObj [(''key'', JStr proj)])]),
                       (''id'', JStr (''refs/heads/'' @ tgt)),
                       (''type'', JStr ''BRANCH'')])]))\<rparr>)
         in (\<forall>us. getReviewers requested rr = Inr us \<longrightarrow>
               snd (createPullRequest e ttl dsc proj rep src tgt ro a base tr) =
                 tr2 @ [post (map name us)])
          \<and> (\<forall>x. getReviewers requested rr = Inl x \<longrightarrow>
               createPullRequest e ttl dsc proj rep src tgt ro a base tr = (Inl x, tr2))
          \<and> (\<forall>rs ns. rr = JArr rs \<and> mapE (\<lambda>r. getProp r ''name'') rs = Inr ns \<longrightarrow>
               snd (createPullRequest e ttl dsc proj rep src tgt ro a base tr) =
                 tr2 @ [post (ns @ map JStr (filter (\<lambda>u. JStr u \<notin> set ns) requested))])"
proof -
  have d: "default_to [] ro = (case ro of None \<Rightarrow> [] | Some xs \<Rightarrow> xs)"
    by (simp add: default_to_def)
  have obj: "reviewersObject_of (default_to [] ro) rr =
           bindE (getReviewers (case ro of None \<Rightarrow> [] | Some xs \<Rightarrow> xs) rr)
             (\<lambda>us. Inr (reviewers_json us))"
    by (simp add: reviewersObject_of_def truthy_array_def d)
  have 1: "snd (createPullRequest e ttl dsc proj rep src tgt ro a base tr) =
      tr2 @ [Fetch (pull_request_options e ttl dsc (reviewers_json us) proj rep src tgt a base)]"
    if "getReviewers (case ro of None \<Rightarrow> [] | Some xs \<Rightarrow> xs) rr = Inr us" for us
    using that by (simp add: createPullRequest_steps [OF assms] obj bindE_simps)
  have 2: "createPullRequest e ttl dsc proj rep src tgt ro a base tr = (Inl x, tr2)"
    if "getReviewers (case ro of None \<Rightarrow> [] | Some xs \<Rightarrow> xs) rr = Inl x" for x
    using that by (simp add: createPullRequest_steps [OF assms] obj bindE_simps)
  have 3: "getReviewers (case ro of None \<Rightarrow> [] | Some xs \<Rightarrow> xs) rr =
      Inr (map User ns @ map (\<lambda>u. User (JStr u))
             (filter (\<lambda>u. JStr u \<notin> set ns) (case ro of None \<Rightarrow> [] | Some xs \<Rightarrow> xs)))"
    if "rr = JArr rs" "mapE (\<lambda>r. getProp r ''name'') rs = Inr ns" for rs ns
    using that by (simp add: getReviewers_JArr bindE_simps)
  show ?thesis
    unfolding Let_def
    using 1 2 3
    by (auto simp: pull_request_options_def pull_request_json_def ref_json_def
          reviewers_json_def comp_def)
qed

theorem createPullRequest_submits_merged_reviewers_witness:
  "snd (createPullRequest
      (example_env example_location
         (example_server created_pull_request_response no_content_response))
      ''Update'' ''Update by backstage'' ''TEAM'' ''svc'' ''feature/update'' ''main'' None
      ''Bearer abc'' ''https://bitbucket.example.com/rest/api/1.0'' []) =
     [Fetch example_lookup_request, Fetch example_reviewers_request,
      Fetch
        \<lparr>url = ''https://bitbucket.example.com/rest/api/1.0/projects/TEAM/repos/svc/pull-requests'',
         httpMethod = ''POST'',
         authorization = ''Bearer abc'',
         contentType = Some ''application/json'',
         body = Some (JSON_stringify
           (example_env example_location
              (example_server created_pull_request_response no_content_response))
           (JObj
             [(''title'', JStr ''Update''),
              (''description'', JStr ''Update by backstage''),
              (''reviewers'',
                 JArr [JObj [(''user'', JObj [(''name'', JStr ''alice'')])],
                       JObj [(''user'', JObj [(''name'', JStr ''bob'')])]]),
              (''fromRef'', JObj
                 [(''repository'', JObj [(''slug'', JStr ''svc''),
                                         (''project'', JObj [(''key'', JStr ''TEAM'')])]),
                  (''id'', JStr ''refs/heads/feature/update''),
                  (''type'', JStr ''BRANCH'')]),
              (''toRef'', JObj
                 [(''repository'', JObj [(''slug'', JStr ''svc''),
                                         (''project'', JObj [(''key'', JStr ''TEAM'')])]),
                  (''id'', JStr ''refs/heads/main''),
                  (''type'', JStr ''BRANCH'')])]))\<rparr>]"
proof -
  let ?e = "example_env example_location
         (example_server created_pull_request_response no_content_response)"
  let ?rs = "[JObj [(''name'', JStr ''alice''), (''id'', JNum 7)],
              JObj [(''name'', JStr ''bob''), (''id'', JNum 8)]]"
  have i: "repoId example_info = JNum 42"
    by (simp add: example_info_def)
  have h1: "getRepoInfo ?e ''TEAM'' ''svc'' ''Bearer abc''
      ''https://bitbucket.example.com/rest/api/1.0'' [] =
      (Inr example_info, [] @ [Fetch example_lookup_request])"
    by (rule example_getRepoInfo)
  have h2: "getRequiredReviewers ?e ''TEAM'' ''svc'' (repoId example_info)
      (''refs/heads/'' @ ''feature/update'') (repoId example_info) (''refs/heads/'' @ ''main'')
      ''Bearer abc'' ''https://bitbucket.example.com/rest/api/1.0''
      ([] @ [Fetch example_lookup_request]) =
      (Inr (JArr ?rs), ([] @ [Fetch example_lookup_request]) @ [Fetch example_reviewers_request])"
    unfolding i by (rule example_getRequiredReviewers)
  have n: "mapE (\<lambda>r. getProp r ''name'') ?rs = Inr [JStr ''alice'', JStr ''bob'']"
    by (simp add: bindE_simps own_property_def)
  note c = createPullRequest_submits_merged_reviewers [OF h1 h2, where ro = None
      and ttl = "''Update''" and dsc = "''Update by backstage''", unfolded Let_def,
      THEN conjunct2, THEN conjunct2, rule_format, of ?rs "[JStr ''alice'', JStr ''bob'']"]
  from c n show ?thesis by simp
qed

subsection \<open>The action handlers\<close>

text \<open>
  Claim C8. When the parsed repository location has no project (it is missing or the
  empty string), each of the five action handlers fails with an \<open>InputError\<close> and leaves
  the trace as it was: no request is sent and nothing else is done.
\<close>

theorem handlers_reject_missing_project:
  assumes "parseRepoUrl e u = Inr loc" and "falsy (project loc)"
  shows "(repoUrl p1 = u \<longrightarrow> publish_push_handler e p1 ws tr =
            (Inl (InputError (''Invalid URL provider was included in the repo URL to create ''
               @ u @ '', missing project'')), tr))
       \<and> (repoUrl p2 = u \<longrightarrow> branch_push_handler e p2 ws tr =
            (Inl (InputError (''Invalid URL provider was included in the repo URL to create ''
               @ u @ '', missing project'')), tr))
       \<and> (repoUrl p3 = u \<longrightarrow> repo_clone_handler e p3 ws tr =
            (Inl (InputError (''Invalid URL provider was included in the repo URL to create ''
               @ u @ '', missing project'')), tr))
       \<and> (repoUrl p4 = u \<longrightarrow> repo_create_handler e p4 tr =
            (Inl (InputError (''Invalid URL provider was included in the repo URL to create ''
               @ u @ '', missing project'')), tr))
       \<and> (repoUrl p5 = u \<longrightarrow> pull_request_handler e p5 tr =
            (Inl (InputError (''Invalid URL provider was included in the repo URL to create ''
               @ u @ '', missing project'')), tr))"
  by (simp add: publish_push_handler_def branch_push_handler_def repo_clone_handler_def
        repo_create_handler_def pull_request_handler_def io_defs
        handler_prelude_missing_project [OF assms])

theorem handlers_reject_missing_project_witness:
  "publish_push_handler (example_env example_location_no_project (\<lambda>tr req. Inr not_found_response))
      (example_push_input example_repoUrl_no_project None) ''/workspace'' [] =
     (Inl (InputError (''Invalid URL provider was included in the repo URL to create ''
        @ ''bitbucket.example.com?repo=svc, missing project'')), [])
   \<and> branch_push_handler (example_env example_location_no_project (\<lambda>tr req. Inr not_found_response))
      (example_branch_push_input example_repoUrl_no_project) ''/workspace'' [] =
     (Inl (InputError (''Invalid URL provider was included in the repo URL to create ''
        @ ''bitbucket.example.com?repo=svc, missing project'')), [])
   \<and> repo_clone_handler (example_env example_location_no_project (\<lambda>tr req. Inr not_found_response))
      (example_clone_input example_repoUrl_no_project) ''/workspace'' [] =
     (Inl (InputError (''Invalid URL provider was included in the repo URL to create ''
        @ ''bitbucket.example.com?repo=svc, missing project'')), [])
   \<and> repo_create_handler (example_env example_location_no_project (\<lambda>tr req. Inr not_found_response))
      (example_create_input example_repoUrl_no_project None) [] =
     (Inl (InputError (''Invalid URL provider was included in the repo URL to create ''
        @ ''bitbucket.example.com?repo=svc, missing project'')), [])
   \<and> pull_request_handler (example_env example_location_no_project (\<lambda>tr req. Inr not_found_response))
      (example_pr_input example_repoUrl_no_project) [] =
     (Inl (InputError (''Invalid URL provider was included in the repo URL to create ''
        @ ''bitbucket.example.com?repo=svc, missing project'')), [])"
proof -
  let ?e = "example_env example_location_no_project (\<lambda>tr req. Inr not_found_response)"
  have p: "parseRepoUrl ?e example_repoUrl_no_project
      = Inr example_location_no_project"
    by (simp add: example_env_def)
  have m: "falsy (project example_location_no_project)"
    by (simp add: falsy_def truthy_def example_location_no_project_def)
  from handlers_reject_missing_project [OF p m,
      of "example_push_input example_repoUrl_no_project None"
      "''/workspace''" "[]" "example_branch_push_input example_repoUrl_no_project"
      "example_clone_input example_repoUrl_no_project"
      "example_create_input example_repoUrl_no_project None"
      "example_pr_input example_repoUrl_no_project"]
  show ?thesis
    by (simp add: example_push_input_def example_branch_push_input_def example_clone_input_def
          example_create_input_def example_pr_input_def example_repoUrl_no_project_def)
qed

text \<open>
  Claim C7, as stated, fails: an override token that is present but empty is the resolved
  token (the configured token is not used), and git is then given the configured user
  name and password, not a token.
\<close>

theorem publish_push_handler_empty_token_counterexample:
  "nullish (inputToken (example_push_input example_repoUrl (Some []))) (token example_config)
     = Some []
   \<and> map push_auth
      (push_calls (snd (publish_push_handler
         (example_env example_location (example_server conflict_response conflict_response))
         (example_push_input example_repoUrl (Some [])) ''/workspace'' []))) =
     [BasicAuth (Some ''u'') (Some ''p'')]"
  by (simp add: example_publish_push example_push_input_fields nullish_def example_target_def
        git_auth_def truthy_def example_config_def)

text \<open>
  Claim C7, amended. In the publish push action the resolved token is the override token
  of the caller when one is given and the configured token otherwise; every push uses
  token credentials when the resolved token is a non-empty string and the configured
  user name and password otherwise; and when the request options yield no authorization
  value the action fails with an error before anything is sent (the trace stays empty).
\<close>

theorem publish_push_handler_authorization:
  assumes "parseRepoUrl e (repoUrl inp) = Inr loc"
    and "truthy (project loc) = Some proj"
    and "byHost e (host loc) = Some cfg"
  shows "(\<forall>t. handler_prelude e (repoUrl inp) (inputToken inp) = Inr t \<longrightarrow>
            token (authConfig t) =
              (case inputToken inp of Some x \<Rightarrow> Some x | None \<Rightarrow> token cfg))
       \<and> (falsy (getBitbucketServerRequestOptions e
                    (cfg\<lparr>token := nullish (inputToken inp) (token cfg)\<rparr>)) \<longrightarrow>
            publish_push_handler e inp ws [] =
              (Inl (Error (''Authorization has not been provided for '' @ config_host cfg
                 @ ''. Please add either (a) a user login auth token, ''
                 @ ''or (b) a token or (c) username + password to the integration config.'')),
               []))
       \<and> (\<forall>a \<in> set (push_calls (snd (publish_push_handler e inp ws []))).
            push_auth a =
              (case truthy (nullish (inputToken inp) (token cfg)) of
                 Some x \<Rightarrow> TokenAuth x
               | None \<Rightarrow> BasicAuth (username cfg) (password cfg)))"
proof -
  have pre: "authConfig t = cfg\<lparr>token := nullish (inputToken inp) (token cfg)\<rparr>"
    if "handler_prelude e (repoUrl inp) (inputToken inp) = Inr t" for t
    using handler_prelude_Inr [OF that] assms by auto
  have 1: "token (authConfig t) = (case inputToken inp of Some x \<Rightarrow> Some x | None \<Rightarrow> token cfg)"
    if "handler_prelude e (repoUrl inp) (inputToken inp) = Inr t" for t
    by (simp add: pre [OF that] nullish_def)
  have 2: "publish_push_handler e inp ws [] =
              (Inl (Error (''Authorization has not been provided for '' @ config_host cfg
                 @ ''. Please add either (a) a user login auth token, ''
                 @ ''or (b) a token or (c) username + password to the integration config.'')),
               [])"
    if "falsy (getBitbucketServerRequestOptions e
                    (cfg\<lparr>token := nullish (inputToken inp) (token cfg)\<rparr>))"
    using that assms
    by (simp add: publish_push_handler_def io_defs handler_prelude_def bindE_simps falsy_def
          Let_def)
  have 3: "push_auth a =
              (case truthy (nullish (inputToken inp) (token cfg)) of
                 Some x \<Rightarrow> TokenAuth x
               | None \<Rightarrow> BasicAuth (username cfg) (password cfg))"
    if "a \<in> set (push_calls (snd (publish_push_handler e inp ws [])))" for a
  proof -
    from publish_push_handler_push_calls [of e inp ws] that
    obtain t where t: "handler_prelude e (repoUrl inp) (inputToken inp) = Inr t"
      and a: "push_auth a = git_auth (authConfig t)"
      by blast
    show ?thesis
      by (simp add: a pre [OF t] git_auth_def split: option.splits)
  qed
  from 1 2 3 show ?thesis by blast
qed

theorem publish_push_handler_authorization_witness:
  "map push_auth
      (push_calls (snd (publish_push_handler
         (example_env example_location (example_server conflict_response conflict_response))
         (example_push_input example_repoUrl (Some ''xyz'')) ''/workspace'' []))) =
     [TokenAuth ''xyz'']
   \<and> publish_push_handler
        ((example_env example_location (example_server conflict_response conflict_response))
           \<lparr>getBitbucketServerRequestOptions := (\<lambda>c. None)\<rparr>)
        (example_push_input example_repoUrl (Some ''xyz'')) ''/workspace'' [] =
      (Inl (Error (''Authorization has not been provided for bitbucket.example.com''
         @ ''. Please add either (a) a user login auth token, ''
         @ ''or (b) a token or (c) username + password to the integration config.'')), [])"
proof -
  let ?e = "example_env example_location (example_server conflict_response conflict_response)"
  let ?e' = "?e\<lparr>getBitbucketServerRequestOptions := (\<lambda>c. None)\<rparr>"
  let ?inp = "example_push_input example_repoUrl (Some ''xyz'')"
  have p: "parseRepoUrl ?e (repoUrl ?inp) = Inr example_location"
      "parseRepoUrl ?e' (repoUrl ?inp) = Inr example_location"
    by (simp_all add: example_env_def)
  have c: "config_host example_config = ''bitbucket.example.com''"
    by (simp add: example_config_def)
  have m: "truthy (project example_location) = Some ''TEAM''"
    by (simp add: truthy_def example_location_def)
  have b: "byHost ?e (host example_location) = Some example_config"
      "byHost ?e' (host example_location) = Some example_config"
    by (simp_all add: example_env_def example_location_def)
  have f: "falsy (getBitbucketServerRequestOptions ?e'
      (example_config\<lparr>token := nullish (inputToken ?inp) (token example_config)\<rparr>))"
    by (simp add: falsy_def truthy_def)
  from publish_push_handler_authorization [OF p(1) m b(1), of "''/workspace''"]
    publish_push_handler_authorization [OF p(2) m b(2), of "''/workspace''"] f
  show ?thesis
    by (simp add: example_publish_push example_push_input_fields nullish_def truthy_def
          c example_target_def git_auth_def)
qed

text \<open>
  Claim C10. In the publish push action every push uses the branch \<open>backstage/update\<close>
  when the \<open>targetBranch\<close> input is missing, although the description of that input in
  the schema names \<open>master\<close>, and the commit message \<open>commit by backstage\<close> when the
  \<open>gitCommitMessage\<close> input is missing; in the branch push action the commit message
  is then \<open>init commit by backstage\<close>. An action that succeeds has pushed exactly once.
\<close>

theorem push_defaults:
  "(\<forall>a \<in> set (push_calls (snd (publish_push_handler e inp ws []))).
      (targetBranch inp = None \<longrightarrow> defaultBranch a = ''backstage/update'')
      \<and> (gitCommitMessage inp = None \<longrightarrow> commitMessage a = Some ''commit by backstage''))
   \<and> (fst (publish_push_handler e inp ws []) = Inr () \<longrightarrow>
        length (push_calls (snd (publish_push_handler e inp ws []))) = 1)
   \<and> (\<forall>a \<in> set (push_calls (snd (branch_push_handler e binp ws []))).
        gitCommitMessage binp = None \<longrightarrow> commitMessage a = Some ''init commit by backstage'')
   \<and> (fst (branch_push_handler e binp ws []) = Inr () \<longrightarrow>
        length (push_calls (snd (branch_push_handler e binp ws []))) = 1)
   \<and> ''backstage/update'' \<noteq> ''master''
   \<and> sublist ''master'' targetBranch_description"
proof -
  have 1: "(targetBranch inp = None \<longrightarrow> defaultBranch a = ''backstage/update'')
      \<and> (gitCommitMessage inp = None \<longrightarrow> commitMessage a = Some ''commit by backstage'')"
    if "a \<in> set (push_calls (snd (publish_push_handler e inp ws [])))" for a
    using publish_push_handler_push_calls [of e inp ws] that
    by (auto simp: default_to_def or_config_def truthy_def)
  have 2: "gitCommitMessage binp = None \<longrightarrow> commitMessage a = Some ''init commit by backstage''"
    if "a \<in> set (push_calls (snd (branch_push_handler e binp ws [])))" for a
    using branch_push_handler_push_calls [of e binp ws] that
    by (auto simp: default_to_def or_config_def truthy_def)
  have 3: "sublist ''master'' targetBranch_description"
    unfolding sublist_def targetBranch_description_def
    by (intro exI [of _ "''Sets the target branch for the pull request. The default value is ''
          @ [CHR 0x27]"] exI [of _ "[CHR 0x27]"]) simp
  from 1 2 3 publish_push_handler_success [of e inp ws] branch_push_handler_success [of e binp ws]
  show ?thesis by simp
qed

theorem push_defaults_witness:
  "map (\<lambda>a. (defaultBranch a, commitMessage a))
      (push_calls (snd (publish_push_handler
         (example_env example_location (example_server conflict_response conflict_response))
         (example_push_input example_repoUrl None) ''/workspace'' []))) =
     [(''backstage/update'', Some ''commit by backstage'')]
   \<and> map commitMessage
      (push_calls (snd (branch_push_handler
         (example_env example_location (example_server conflict_response conflict_response))
         (example_branch_push_input example_repoUrl) ''/workspace'' []))) =
     [Some ''init commit by backstage'']"
  using push_defaults [of
      "example_env example_location (example_server conflict_response conflict_response)"
      "example_push_input example_repoUrl None" "''/workspace''"
      "example_branch_push_input example_repoUrl"]
  by (simp add: example_publish_push example_branch_push)

end
